theory Spec2Isabelle
  imports Main
begin

section \<open>Python values shared by both modules\<close>

text \<open>
  The repository is two Python modules: \<^verbatim>\<open>translator/data.py\<close> (class \<^verbatim>\<open>Processor\<close>)
  and \<^verbatim>\<open>translator/training.py\<close> (function \<^verbatim>\<open>main\<close>). Both are glue around the
  \<^verbatim>\<open>datasets\<close>, \<^verbatim>\<open>transformers\<close> and \<^verbatim>\<open>peft\<close> libraries. The embedding keeps
  the control flow, the local variables and every raise of the two modules; a library
  call is recorded with the arguments the code passes to it, and what the library
  answers (whether a path exists, whether a load throws, what a tokenizer returns) is
  read from a parameter.
\<close>

datatype error =
    ValueError string
  | TypeError string
  | KeyError string
  | AttributeError string
  | UnboundLocalError string
  | AssertionError string
  | ZeroDivisionError string
  | LibraryError string

text \<open>A keyword argument of a library call: passed with a value, or left out.\<close>

datatype 'a kwarg = NotPassed | Passed 'a

text \<open>
  Python's truth value of an optional string (\<^verbatim>\<open>if model_args.config_name:\<close>):
  \<^verbatim>\<open>None\<close> and the empty string are false.
\<close>

fun truthy :: "string option \<Rightarrow> bool" where
  "truthy None = False"
| "truthy (Some s) = (s \<noteq> [])"

text \<open>Python's \<^verbatim>\<open>sub in s\<close> on strings: \<^verbatim>\<open>sub\<close> occurs in \<^verbatim>\<open>s\<close> as a contiguous run.\<close>

fun contains :: "string \<Rightarrow> string \<Rightarrow> bool" where
  "contains sub [] = (sub = [])"
| "contains sub (c # cs) = (take (length sub) (c # cs) = sub \<or> contains sub cs)"

section \<open>The tokenizer, as \<^verbatim>\<open>data.py\<close> uses it\<close>

text \<open>
  \<^verbatim>\<open>self.tokenizer(...)\<close> is a call into \<^verbatim>\<open>transformers\<close>. The record
  \<open>tokenizer_call\<close> holds the keyword arguments \<^verbatim>\<open>tokenize_fn\<close> passes
  (\<^verbatim>\<open>text\<close> is the positional argument), \<open>encoding\<close> the two entries of the
  answer the code reads, and \<open>tokenizer\<close> the object itself: its call and the
  attributes the two modules read or assign.
\<close>

record tokenizer_call =
  kw_text :: "string option"
  kw_text_target :: "string option"
  kw_max_length :: "int option"
  kw_padding :: string
  kw_truncation :: bool

record encoding =
  input_ids :: "int list"
  attention_mask :: "int list"

record model_inputs = encoding +
  labels :: "int list"

record tokenizer =
  tok_call :: "tokenizer_call \<Rightarrow> encoding"
  pad_token_id :: "int option"
  eos_token_id :: "int option"
  padding_side :: string

section \<open>\<^verbatim>\<open>data.py\<close>: the arguments and the \<^verbatim>\<open>Processor\<close> object\<close>

text \<open>
  \<^verbatim>\<open>DataTrainingArguments\<close> is declared in \<^verbatim>\<open>arguments.py\<close>, which is not among the
  sources; the record has the attributes \<^verbatim>\<open>data.py\<close> reads, each optional where the
  code tests it against \<^verbatim>\<open>None\<close>.
\<close>

record data_args =
  train_dir :: "string option"
  data_name :: "string option"
  dataset_name_train :: "string option"
  max_train_samples :: "int option"
  valid_dir :: "string option"
  dataset_name_validation :: "string option"
  max_valid_samples :: "int option"
  streaming :: bool
  max_len :: "int option"
  dataset_num_workers :: "int option"

record processor =
  p_tokenizer :: tokenizer
  p_batch_size :: int
  p_data_args :: data_args
  p_seed :: int

text \<open>
  \<^verbatim>\<open>Processor.__init__(self, tokenizer, batch_size, data_args, seed)\<close>: four
  parameters, none with a default. Python binds the arguments before the body runs and
  raises \<^verbatim>\<open>TypeError\<close> for a call that leaves one out; the last parameter is
  \<open>NotPassed\<close> for such a call.
\<close>

definition Processor_init ::
  "tokenizer \<Rightarrow> int \<Rightarrow> data_args \<Rightarrow> int kwarg \<Rightarrow> error + processor" where
  "Processor_init tok bs da sd =
     (case sd of
        NotPassed \<Rightarrow>
          Inl (TypeError ''__init__() missing 1 required positional argument: seed'')
      | Passed s \<Rightarrow>
          Inr \<lparr>p_tokenizer = tok, p_batch_size = bs, p_data_args = da, p_seed = s\<rparr>)"

subsection \<open>\<^verbatim>\<open>tokenize_fn\<close> and \<^verbatim>\<open>group_fn\<close>\<close>

text \<open>
  \<^verbatim>\<open>tokenize_fn(self, x, length, padding=True, target=False)\<close>: the parameter
  \<^verbatim>\<open>padding\<close> is never read; both branches pass \<^verbatim>\<open>padding="max_length"\<close> and
  \<^verbatim>\<open>truncation=True\<close>, and \<^verbatim>\<open>max_length=None if length is None else length\<close> is
  \<^verbatim>\<open>length\<close> itself.
\<close>

definition tokenize_fn :: "processor \<Rightarrow> string \<Rightarrow> int option \<Rightarrow> bool \<Rightarrow> bool \<Rightarrow> encoding" where
  "tokenize_fn p x len padding target =
     (if target = False then
        tok_call (p_tokenizer p)
          \<lparr>kw_text = Some x, kw_text_target = None,
           kw_max_length = (if len = None then None else len),
           kw_padding = ''max_length'', kw_truncation = True\<rparr>
      else
        tok_call (p_tokenizer p)
          \<lparr>kw_text = None, kw_text_target = Some x,
           kw_max_length = (if len = None then None else len),
           kw_padding = ''max_length'', kw_truncation = True\<rparr>)"

text \<open>
  The list comprehension of \<^verbatim>\<open>group_fn\<close>:
  \<^verbatim>\<open>[(l if l != self.tokenizer.pad_token_id else -100) for l in labels["input_ids"]]\<close>.
  \<^verbatim>\<open>pad_token_id\<close> is \<^verbatim>\<open>None\<close> for a tokenizer with no padding token, and an
  integer never equals \<^verbatim>\<open>None\<close>.
\<close>

definition mask_labels :: "int option \<Rightarrow> int list \<Rightarrow> int list" where
  "mask_labels pad ids = map (\<lambda>l. if Some l \<noteq> pad then l else - 100) ids"

text \<open>
  An example is a row of the dataset, a dictionary from column names to text;
  \<^verbatim>\<open>example['inputs']\<close> raises \<^verbatim>\<open>KeyError\<close> for a row without that column.
\<close>

type_synonym example = "string \<rightharpoonup> string"

definition group_fn :: "processor \<Rightarrow> example \<Rightarrow> error + model_inputs" where
  "group_fn p example =
     (case example ''inputs'' of
        None \<Rightarrow> Inl (KeyError ''inputs'')
      | Some src \<Rightarrow>
          (let enc = tokenize_fn p src (max_len (p_data_args p)) True False in
           case example ''targets'' of
             None \<Rightarrow> Inl (KeyError ''targets'')
           | Some tgt \<Rightarrow>
               (let lab = tokenize_fn p tgt (max_len (p_data_args p)) True True;
                    lab' = lab\<lparr>input_ids :=
                             mask_labels (pad_token_id (p_tokenizer p)) (input_ids lab)\<rparr>
                in Inr \<lparr>input_ids = input_ids enc, attention_mask = attention_mask enc,
                        labels = input_ids lab'\<rparr>)))"

subsection \<open>Datasets, as the pipeline of library calls that builds them\<close>

text \<open>
  The \<^verbatim>\<open>Processor\<close> never looks inside a dataset: it loads one and chains calls
  of the \<^verbatim>\<open>datasets\<close> library on it. A dataset value is therefore the chain itself,
  each call with the arguments the code passes. \<^verbatim>\<open>multi_trans\<close> and \<^verbatim>\<open>a_2_b\<close>
  are imported from \<^verbatim>\<open>translator.features.finetune.utils\<close>, which is not among the
  sources; they appear as named calls with their language arguments.
\<close>

datatype mapped = GroupFn | A2B string string

datatype dataset =
    LoadFromDisk string string
  | LoadDataset string string "bool kwarg"
  | Select int dataset
  | Take int dataset
  | FromList dataset
  | MultiTrans dataset string string
  | DsMap mapped "bool kwarg" "int option kwarg" "string list" dataset
  | Interleave "dataset list" int
  | Shuffle int int dataset

text \<open>
  \<open>LoadFromDisk path key\<close> is \<^verbatim>\<open>load_from_disk(dataset_path=path)[key]\<close>;
  \<open>LoadDataset name split streaming\<close> is \<^verbatim>\<open>load_dataset(name, split=.., streaming=..)\<close>;
  \<open>Select n d\<close> is \<^verbatim>\<open>d.select(range(n))\<close>; \<open>FromList (Take n d)\<close> is
  \<^verbatim>\<open>Dataset.from_list(list(d.take(n)))\<close>; \<open>DsMap f batched num_proc remove_columns d\<close>
  is \<^verbatim>\<open>d.map(f, ...)\<close>, where \<open>A2B a b\<close> is \<^verbatim>\<open>a_2_b\<close> with
  \<^verbatim>\<open>fn_kwargs={"language_a": a, "language_b": b}\<close>; \<open>Interleave ds seed\<close> is
  \<^verbatim>\<open>interleave_datasets(ds, seed=seed)\<close>; \<open>Shuffle seed buffer_size d\<close> is
  \<^verbatim>\<open>d.shuffle(seed=seed, buffer_size=buffer_size)\<close>.
\<close>

subsection \<open>What the run prints, logs and calls\<close>

datatype model_class = AutoModelForSeq2SeqLM | AutoModelForCausalLM

datatype model_value = BaseModel model_class string | PeftModel model_value "string list"

datatype event =
    LogInfo string
  | LogWarning string
  | Printed string
  | SetSeed int
  | ConfigFromPretrained string
  | ConfigFromMapping "string option"
  | ConfigUpdateFromString string
  | TokenizerFromPretrained string "bool kwarg"
  | BuildQuantConfig
  | ModelFromPretrained model_class string bool
  | BuildLoraConfig "string list"
  | PrepareInt8
  | GetPeftModel
  | PrintedTrainable int int
  | BuildCollator
  | BuildTrainer
  | Train
  | SavePretrained

text \<open>
  The world outside the two modules: the file system, the dataset loaders, the tokenizer
  a name resolves to, the parameters of the model a name resolves to (each with its
  number of elements and whether it requires a gradient), and for every other library
  call whether it raises.
\<close>

record world =
  isdir :: "string \<Rightarrow> bool"
  listdir :: "string \<Rightarrow> string list"
  get_last_checkpoint :: "string \<Rightarrow> string option"
  path_exists :: "string \<Rightarrow> bool"
  load_from_disk :: "string \<Rightarrow> error + string list"
  load_dataset :: "string \<Rightarrow> string \<Rightarrow> error option"
  pretrained_tokenizer :: "string \<Rightarrow> tokenizer"
  named_parameters :: "model_value \<Rightarrow> (int \<times> bool) list"
  fails :: "event \<Rightarrow> error option"

subsection \<open>\<^verbatim>\<open>load_data\<close>\<close>

text \<open>
  \<^verbatim>\<open>load_from_disk\<close> answers with the split names the directory holds, or throws; the
  subscription \<^verbatim>\<open>[key]\<close> throws for a split that is not there. Both stand inside
  the \<^verbatim>\<open>try\<close>, whose bare \<^verbatim>\<open>except\<close> logs, prints and falls off the end of the
  function: \<^verbatim>\<open>load_data\<close> then returns \<^verbatim>\<open>None\<close>. The two branches on
  \<^verbatim>\<open>streaming\<close> are the same call.
\<close>

definition load_data ::
  "world \<Rightarrow> processor \<Rightarrow> string \<Rightarrow> string \<Rightarrow> event list \<Rightarrow> (error + dataset option) \<times> event list" where
  "load_data w p data_path key out =
     (if \<not> path_exists w data_path then
        (Inl (ValueError (''Not found '' @ data_path @ '' path.'')), out)
      else
        (case (if streaming (p_data_args p) then load_from_disk w data_path
               else load_from_disk w data_path) of
           Inr keys \<Rightarrow>
             (if key \<in> set keys then (Inr (Some (LoadFromDisk data_path key)), out)
              else (Inr None,
                    out @ [LogInfo (''Error loading dataset '' @ data_path),
                           Printed (''Error loading dataset '' @ data_path)]))
         | Inl e \<Rightarrow>
             (Inr None,
              out @ [LogInfo (''Error loading dataset '' @ data_path),
                     Printed (''Error loading dataset '' @ data_path)])))"

subsection \<open>\<^verbatim>\<open>process_fn\<close>\<close>

text \<open>
  \<^verbatim>\<open>dataset.map(...)\<close> and \<^verbatim>\<open>dataset.select(...)\<close> are attribute lookups first:
  on \<^verbatim>\<open>None\<close> they raise \<^verbatim>\<open>AttributeError\<close>.
\<close>

definition process_fn :: "processor \<Rightarrow> dataset option \<Rightarrow> error + dataset" where
  "process_fn p dataset =
     (case dataset of
        None \<Rightarrow> Inl (AttributeError ''NoneType object has no attribute map'')
      | Some d \<Rightarrow>
          (if streaming (p_data_args p) then
             Inr (DsMap GroupFn NotPassed NotPassed [''inputs'', ''targets''] d)
           else
             Inr (DsMap GroupFn NotPassed
                    (Passed (dataset_num_workers (p_data_args p)))
                    [''inputs'', ''targets''] d)))"

definition select_range :: "dataset option \<Rightarrow> int \<Rightarrow> error + dataset option" where
  "select_range dataset n =
     (case dataset of
        None \<Rightarrow> Inl (AttributeError ''NoneType object has no attribute select'')
      | Some d \<Rightarrow> Inr (Some (Select n d)))"

subsection \<open>\<^verbatim>\<open>Processor.__call__\<close>\<close>

text \<open>The train half (lines 24 to 57), on the dictionary built so far.\<close>

definition call_train ::
  "world \<Rightarrow> processor \<Rightarrow> (string \<rightharpoonup> dataset) \<Rightarrow> event list
     \<Rightarrow> (error + (string \<rightharpoonup> dataset)) \<times> event list" where
  "call_train w p dataset out =
     (let da = p_data_args p in
      if train_dir da \<noteq> None \<and> data_name da = None then
        (case load_data w p (the (train_dir da)) ''train'' out of
           (Inl e, out1) \<Rightarrow> (Inl e, out1)
         | (Inr train_data, out1) \<Rightarrow>
             (case (if max_train_samples da \<noteq> None
                    then select_range train_data (the (max_train_samples da))
                    else Inr train_data) of
                Inl e \<Rightarrow> (Inl e, out1)
              | Inr train_data1 \<Rightarrow>
                  (case process_fn p train_data1 of
                     Inl e \<Rightarrow> (Inl e, out1)
                   | Inr d \<Rightarrow> (Inr (dataset(''train'' \<mapsto> d)), out1))))
      else if dataset_name_train da \<noteq> None then
        (case load_dataset w (the (dataset_name_train da)) ''train'' of
           Some e \<Rightarrow> (Inl e, out)
         | None \<Rightarrow>
             (let train_data =
                    LoadDataset (the (dataset_name_train da)) ''train'' (Passed (streaming da));
                  train_data1 =
                    (if max_train_samples da \<noteq> None then
                       MultiTrans (FromList (Take (the (max_train_samples da)) train_data))
                         ''en'' ''vi''
                     else
                       (let en_2_vi = DsMap (A2B ''en'' ''vi'') (Passed True) NotPassed
                                        [''en'', ''vi''] train_data;
                            vi_2_en = DsMap (A2B ''vi'' ''en'') (Passed True) NotPassed
                                        [''en'', ''vi''] train_data
                        in Shuffle (p_seed p) 10000
                             (Interleave [en_2_vi, vi_2_en] (p_seed p))))
              in case process_fn p (Some train_data1) of
                   Inl e \<Rightarrow> (Inl e, out)
                 | Inr d \<Rightarrow> (Inr (dataset(''train'' \<mapsto> d)), out)))
      else (Inr dataset, out))"

text \<open>The validation half (lines 60 to 74).\<close>

definition call_valid ::
  "world \<Rightarrow> processor \<Rightarrow> (string \<rightharpoonup> dataset) \<Rightarrow> event list
     \<Rightarrow> (error + (string \<rightharpoonup> dataset)) \<times> event list" where
  "call_valid w p dataset out =
     (let da = p_data_args p in
      if valid_dir da \<noteq> None then
        (case load_data w p (the (valid_dir da)) ''validation'' out of
           (Inl e, out1) \<Rightarrow> (Inl e, out1)
         | (Inr valid_data, out1) \<Rightarrow>
             (case (if max_valid_samples da \<noteq> None
                    then select_range valid_data (the (max_valid_samples da))
                    else Inr valid_data) of
                Inl e \<Rightarrow> (Inl e, out1)
              | Inr valid_data1 \<Rightarrow>
                  (case process_fn p valid_data1 of
                     Inl e \<Rightarrow> (Inl e, out1)
                   | Inr d \<Rightarrow> (Inr (dataset(''validation'' \<mapsto> d)), out1))))
      else if dataset_name_validation da \<noteq> None then
        (case load_dataset w (the (dataset_name_validation da)) ''validation'' of
           Some e \<Rightarrow> (Inl e, out)
         | None \<Rightarrow>
             (let valid_data =
                    LoadDataset (the (dataset_name_validation da)) ''validation'' NotPassed;
                  valid_data1 = MultiTrans valid_data ''en'' ''vi''
              in case process_fn p (Some valid_data1) of
                   Inl e \<Rightarrow> (Inl e, out)
                 | Inr d \<Rightarrow> (Inr (dataset(''validation'' \<mapsto> d)), out)))
      else (Inr dataset, out))"

definition Processor_call ::
  "world \<Rightarrow> processor \<Rightarrow> event list \<Rightarrow> (error + (string \<rightharpoonup> dataset)) \<times> event list" where
  "Processor_call w p out =
     (case call_train w p Map.empty out of
        (Inl e, out1) \<Rightarrow> (Inl e, out1)
      | (Inr dataset, out1) \<Rightarrow> call_valid w p dataset out1)"

text \<open>
  The \<^verbatim>\<open>num_proc\<close> argument of every \<^verbatim>\<open>map\<close> call of a pipeline, outermost
  first.
\<close>

fun num_procs :: "dataset \<Rightarrow> int option kwarg list" where
  "num_procs (LoadFromDisk path key) = []"
| "num_procs (LoadDataset name split streamed) = []"
| "num_procs (Select n d) = num_procs d"
| "num_procs (Take n d) = num_procs d"
| "num_procs (FromList d) = num_procs d"
| "num_procs (MultiTrans d a b) = num_procs d"
| "num_procs (DsMap f batched num_proc remove_columns d) = num_proc # num_procs d"
| "num_procs (Interleave ds sd) = concat (map num_procs ds)"
| "num_procs (Shuffle sd buffer_size d) = num_procs d"

section \<open>\<^verbatim>\<open>training.py\<close>: the arguments and the local variables of \<^verbatim>\<open>main\<close>\<close>

text \<open>
  \<^verbatim>\<open>HfArgumentParser\<close> turns the command line or the JSON file into four argument
  groups; \<^verbatim>\<open>main\<close> is modelled from the point where they are parsed (line 75; the
  lines before it parse the arguments and set the verbosity of the loggers). The records
  have the attributes that decide what \<^verbatim>\<open>main\<close> does; the numbers handed through
  to \<^verbatim>\<open>LoraConfig\<close> unchanged (\<^verbatim>\<open>lora_r\<close>, \<^verbatim>\<open>lora_alpha\<close>, \<^verbatim>\<open>lora_dropout\<close>,
  \<^verbatim>\<open>lora_bias\<close>) and the cache and revision settings are left out.
\<close>

record model_args =
  config_name :: "string option"
  model_name_or_path :: "string option"
  model_type :: "string option"
  config_overrides :: "string option"
  tokenizer_name :: "string option"
  quantize :: bool

record training_args =
  output_dir :: string
  do_train :: bool
  overwrite_output_dir :: bool
  resume_from_checkpoint :: "string option"
  seed :: int
  gradient_checkpointing :: bool
  per_device_train_batch_size :: int

record lora_args =
  use_lora :: bool
  target_modules :: "string option"
  att_blocks :: bool
  use_int8_training :: bool

record args =
  m_args :: model_args
  d_args :: data_args
  t_args :: training_args
  l_args :: lora_args

text \<open>
  The state of a run of \<^verbatim>\<open>main\<close>: the calls made so far, the exception raised (if
  one was), and the local variables. A variable that is \<open>None\<close> here is unbound in
  Python (\<open>v_last_checkpoint\<close> apart, whose Python value is optional): reading it
  raises \<^verbatim>\<open>UnboundLocalError\<close>.
\<close>

record locals =
  trace :: "event list"
  raised :: "error option"
  v_last_checkpoint :: "string option"
  v_tokenizer :: "tokenizer option"
  v_cls :: "model_class option"
  v_base_model :: "model_value option"
  v_target_modules :: "string list option"
  v_lora_config :: "string list option"
  v_model :: "model_value option"
  v_processor :: "(string \<rightharpoonup> dataset) option"
  v_trainer :: "model_value option"

definition init_locals :: locals where
  "init_locals =
     \<lparr>trace = [], raised = None, v_last_checkpoint = None, v_tokenizer = None,
      v_cls = None, v_base_model = None, v_target_modules = None, v_lora_config = None,
      v_model = None, v_processor = None, v_trainer = None\<rparr>"

subsection \<open>Statements\<close>

text \<open>
  \<open>raise\<close> is Python's \<^verbatim>\<open>raise\<close>; \<open>call\<close> is a library call that the world may
  let fail (the call is recorded either way); \<open>emit\<close> is a log line or a print. A
  statement runs only while no exception is pending (\<open>step\<close>), and \<open>steps\<close> runs
  statements in order.
\<close>

definition raise :: "error \<Rightarrow> locals \<Rightarrow> locals" where
  "raise e s = s\<lparr>raised := Some e\<rparr>"

definition emit :: "event \<Rightarrow> locals \<Rightarrow> locals" where
  "emit ev s = s\<lparr>trace := trace s @ [ev]\<rparr>"

definition call :: "world \<Rightarrow> event \<Rightarrow> locals \<Rightarrow> locals" where
  "call w ev s =
     (case fails w ev of
        None \<Rightarrow> s\<lparr>trace := trace s @ [ev]\<rparr>
      | Some e \<Rightarrow> s\<lparr>trace := trace s @ [ev], raised := Some e\<rparr>)"

definition step :: "(locals \<Rightarrow> locals) \<Rightarrow> locals \<Rightarrow> locals" where
  "step f s = (if raised s = None then f s else s)"

definition steps :: "(locals \<Rightarrow> locals) list \<Rightarrow> locals \<Rightarrow> locals" where
  "steps fs s = foldl (\<lambda>s f. step f s) s fs"

text \<open>Python's \<^verbatim>\<open>a or b\<close> on strings: \<^verbatim>\<open>a\<close> unless it is empty.\<close>

definition py_or :: "string \<Rightarrow> string \<Rightarrow> string" where
  "py_or a b = (if a \<noteq> [] then a else b)"

subsection \<open>Lines 75 to 144: checkpoint, seed, config, tokenizer, base model\<close>

definition detect_checkpoint :: "args \<Rightarrow> world \<Rightarrow> locals \<Rightarrow> locals" where
  "detect_checkpoint a w s =
     (let ta = t_args a; s0 = s\<lparr>v_last_checkpoint := None\<rparr> in
      if isdir w (output_dir ta) \<and> do_train ta \<and> \<not> overwrite_output_dir ta then
        (let s1 = s0\<lparr>v_last_checkpoint := get_last_checkpoint w (output_dir ta)\<rparr> in
         if v_last_checkpoint s1 = None \<and> length (listdir w (output_dir ta)) > 0 then
           raise (ValueError ''Output directory already exists and is not empty. Use --overwrite_output_dir to overcome.'') s1
         else if v_last_checkpoint s1 \<noteq> None \<and> resume_from_checkpoint ta = None then
           emit (LogInfo ''Checkpoint detected, resuming training'') s1
         else s1)
      else s0)"

definition set_seed :: "args \<Rightarrow> world \<Rightarrow> locals \<Rightarrow> locals" where
  "set_seed a w s = call w (SetSeed (seed (t_args a))) s"

definition load_config :: "args \<Rightarrow> world \<Rightarrow> locals \<Rightarrow> locals" where
  "load_config a w s =
     (let ma = m_args a in
      if truthy (config_name ma) then
        call w (ConfigFromPretrained (the (config_name ma))) s
      else if truthy (model_name_or_path ma) then
        call w (ConfigFromPretrained (the (model_name_or_path ma))) s
      else
        steps
          [call w (ConfigFromMapping (model_type ma)),
           emit (LogWarning ''You are instantiating a new config instance from scratch.''),
           (\<lambda>s. if config_overrides ma \<noteq> None then
                  steps
                    [emit (LogInfo ''Overriding config''),
                     call w (ConfigUpdateFromString (the (config_overrides ma))),
                     emit (LogInfo ''New config'')] s
                else s)] s)"

definition load_tokenizer :: "args \<Rightarrow> world \<Rightarrow> locals \<Rightarrow> locals" where
  "load_tokenizer a w s =
     (let ma = m_args a in
      if truthy (tokenizer_name ma) then
        steps
          [call w (TokenizerFromPretrained (the (tokenizer_name ma)) NotPassed),
           (\<lambda>s. s\<lparr>v_tokenizer := Some (pretrained_tokenizer w (the (tokenizer_name ma)))\<rparr>)] s
      else if truthy (model_name_or_path ma) then
        steps
          [call w (TokenizerFromPretrained (the (model_name_or_path ma)) (Passed True)),
           (\<lambda>s. s\<lparr>v_tokenizer :=
                    Some (pretrained_tokenizer w (the (model_name_or_path ma)))\<rparr>)] s
      else
        raise (ValueError ''You are instantiating a new tokenizer from scratch. This is not supported by this script.'') s)"

text \<open>
  \<^verbatim>\<open>tokenizer.pad_token = tokenizer.eos_token\<close> and
  \<^verbatim>\<open>tokenizer.padding_side = 'right'\<close>: the padding id becomes the end-of-sequence id.
\<close>

definition fix_pad_token :: "args \<Rightarrow> world \<Rightarrow> locals \<Rightarrow> locals" where
  "fix_pad_token a w s =
     (case v_tokenizer s of
        None \<Rightarrow> raise (UnboundLocalError ''tokenizer'') s
      | Some t \<Rightarrow>
          s\<lparr>v_tokenizer :=
              Some (t\<lparr>pad_token_id := eos_token_id t, padding_side := ''right''\<rparr>)\<rparr>)"

definition quantize_config :: "args \<Rightarrow> world \<Rightarrow> locals \<Rightarrow> locals" where
  "quantize_config a w s = (if quantize (m_args a) then call w BuildQuantConfig s else s)"

text \<open>
  \<^verbatim>\<open>'mt' in model_args.model_name_or_path\<close> raises \<^verbatim>\<open>TypeError\<close> when the name is
  \<^verbatim>\<open>None\<close>.
\<close>

definition pick_cls :: "args \<Rightarrow> world \<Rightarrow> locals \<Rightarrow> locals" where
  "pick_cls a w s =
     (case model_name_or_path (m_args a) of
        None \<Rightarrow> raise (TypeError ''argument of type NoneType is not iterable'') s
      | Some name \<Rightarrow>
          s\<lparr>v_cls := Some (if contains ''mt'' name then AutoModelForSeq2SeqLM
                           else AutoModelForCausalLM)\<rparr>)"

text \<open>
  \<^verbatim>\<open>raise NotImplemented\<close> raises \<^verbatim>\<open>TypeError\<close>: \<^verbatim>\<open>NotImplemented\<close> is not an
  exception.
\<close>

definition load_model :: "args \<Rightarrow> world \<Rightarrow> locals \<Rightarrow> locals" where
  "load_model a w s =
     (let ma = m_args a in
      if truthy (model_name_or_path ma) then
        (case v_cls s of
           None \<Rightarrow> raise (UnboundLocalError ''cls'') s
         | Some c \<Rightarrow>
             steps
               [call w (ModelFromPretrained c (the (model_name_or_path ma)) (quantize ma)),
                (\<lambda>s. s\<lparr>v_base_model :=
                         Some (BaseModel c (the (model_name_or_path ma)))\<rparr>)] s)
      else raise (TypeError ''exceptions must derive from BaseException'') s)"

subsection \<open>Lines 146 to 186: the low-rank adaptation block\<close>

definition lora_assert :: "args \<Rightarrow> world \<Rightarrow> locals \<Rightarrow> locals" where
  "lora_assert a w s =
     (if \<not> gradient_checkpointing (t_args a) then s
      else raise (AssertionError ''Can not use gradients_checkpointing with LoRA'') s)"

definition target_module_dict :: "string \<rightharpoonup> string list" where
  "target_module_dict =
     [''mT5'' \<mapsto> [''q'', ''wi_1'', ''k'', ''wi_0'', ''v'', ''wo'', ''o'', ''lm_head''],
      ''T5'' \<mapsto> [''v'', ''q'', ''k'', ''wi'', ''wo'', ''o'', ''lm_head'']]"

definition target_att_dict :: "string \<rightharpoonup> string list" where
  "target_att_dict = [''T5'' \<mapsto> [''v'', ''q'', ''k'', ''o'']]"

text \<open>
  Lines 158 to 165. \<^verbatim>\<open>target_modules\<close> is assigned in three of the branches and in no
  other place; \<^verbatim>\<open>("mt5" or "flan-t5")\<close> is evaluated before \<^verbatim>\<open>in\<close>.
\<close>

definition lora_targets :: "args \<Rightarrow> world \<Rightarrow> locals \<Rightarrow> locals" where
  "lora_targets a w s =
     (if truthy (target_modules (l_args a)) then
        (if att_blocks (l_args a) then
           s\<lparr>v_target_modules := target_att_dict ''T5''\<rparr>
         else
           (case model_name_or_path (m_args a) of
              None \<Rightarrow> raise (TypeError ''argument of type NoneType is not iterable'') s
            | Some name \<Rightarrow>
                if contains (py_or ''mt5'' ''flan-t5'') name then
                  s\<lparr>v_target_modules := target_module_dict ''mT5''\<rparr>
                else if contains ''t5'' name then
                  s\<lparr>v_target_modules := target_module_dict ''T5''\<rparr>
                else s))
      else s)"

text \<open>
  Lines 169 to 176. The arguments of \<^verbatim>\<open>LoraConfig(...)\<close> are evaluated before the
  call: reading the unbound \<^verbatim>\<open>target_modules\<close> raises first.
\<close>

definition lora_config :: "args \<Rightarrow> world \<Rightarrow> locals \<Rightarrow> locals" where
  "lora_config a w s =
     (case v_target_modules s of
        None \<Rightarrow> raise (UnboundLocalError ''target_modules'') s
      | Some tm \<Rightarrow>
          steps [call w (BuildLoraConfig tm), (\<lambda>s. s\<lparr>v_lora_config := Some tm\<rparr>)] s)"

definition lora_int8 :: "args \<Rightarrow> world \<Rightarrow> locals \<Rightarrow> locals" where
  "lora_int8 a w s = (if use_int8_training (l_args a) then call w PrepareInt8 s else s)"

definition lora_peft :: "args \<Rightarrow> world \<Rightarrow> locals \<Rightarrow> locals" where
  "lora_peft a w s =
     (case v_base_model s of
        None \<Rightarrow> raise (UnboundLocalError ''base_model'') s
      | Some b \<Rightarrow>
          (case v_lora_config s of
             None \<Rightarrow> raise (UnboundLocalError ''lora_config'') s
           | Some tm \<Rightarrow>
               steps [call w GetPeftModel, (\<lambda>s. s\<lparr>v_model := Some (PeftModel b tm)\<rparr>)] s))"

text \<open>
  \<^verbatim>\<open>print_trainable_parameters\<close> (lines 44 to 56): the loop over
  \<^verbatim>\<open>model.named_parameters()\<close> with its two counters, then the print. The printed
  percentage \<^verbatim>\<open>100 * trainable_params / all_param\<close> is a float and is not kept in the
  event; with \<^verbatim>\<open>all_param\<close> zero the division raises.
\<close>

fun count_parameters :: "(int \<times> bool) list \<Rightarrow> int \<times> int \<Rightarrow> int \<times> int" where
  "count_parameters [] (trainable_params, all_param) = (trainable_params, all_param)"
| "count_parameters ((numel, requires_grad) # params) (trainable_params, all_param) =
     count_parameters params
       (if requires_grad then trainable_params + numel else trainable_params,
        all_param + numel)"

definition print_trainable_parameters :: "(int \<times> bool) list \<Rightarrow> error + event" where
  "print_trainable_parameters params =
     (case count_parameters params (0, 0) of
        (trainable_params, all_param) \<Rightarrow>
          if all_param = 0 then Inl (ZeroDivisionError ''division by zero'')
          else Inr (PrintedTrainable trainable_params all_param))"

text \<open>Lines 184 to 186, with \<^verbatim>\<open>base_model\<close> as the argument.\<close>

definition lora_print :: "args \<Rightarrow> world \<Rightarrow> locals \<Rightarrow> locals" where
  "lora_print a w s =
     steps
       [emit (Printed ''-''),
        (\<lambda>s. case v_base_model s of
               None \<Rightarrow> raise (UnboundLocalError ''base_model'') s
             | Some b \<Rightarrow>
                 (case print_trainable_parameters (named_parameters w b) of
                    Inl e \<Rightarrow> raise e s
                  | Inr ev \<Rightarrow> emit ev s)),
        emit (Printed ''-'')] s"

definition lora_block :: "args \<Rightarrow> world \<Rightarrow> locals \<Rightarrow> locals" where
  "lora_block a w s =
     (if use_lora (l_args a) then
        steps [lora_assert a w, lora_targets a w, lora_config a w, lora_int8 a w,
               lora_peft a w, lora_print a w] s
      else s)"

subsection \<open>Lines 188 to 223: data, collator, trainer, training, saving\<close>

text \<open>
  Line 190: \<^verbatim>\<open>Processor(tokenizer, training_args.per_device_train_batch_size, data_args)\<close>,
  three arguments, and then \<^verbatim>\<open>.__call__()\<close> on the object.
\<close>

definition build_processor :: "args \<Rightarrow> world \<Rightarrow> locals \<Rightarrow> locals" where
  "build_processor a w s =
     (case v_tokenizer s of
        None \<Rightarrow> raise (UnboundLocalError ''tokenizer'') s
      | Some tok \<Rightarrow>
          (case Processor_init tok (per_device_train_batch_size (t_args a)) (d_args a)
                  NotPassed of
             Inl e \<Rightarrow> raise e s
           | Inr p \<Rightarrow>
               (case Processor_call w p (trace s) of
                  (Inl e, out) \<Rightarrow> raise e (s\<lparr>trace := out\<rparr>)
                | (Inr d, out) \<Rightarrow> s\<lparr>trace := out, v_processor := Some d\<rparr>)))"

definition build_collator :: "args \<Rightarrow> world \<Rightarrow> locals \<Rightarrow> locals" where
  "build_collator a w s = call w BuildCollator s"

text \<open>
  Lines 205 to 212. The keyword arguments are evaluated left to right before
  \<^verbatim>\<open>Seq2SeqTrainer\<close> is called: \<^verbatim>\<open>model\<close>, then \<^verbatim>\<open>processor["train"]\<close>, then
  \<^verbatim>\<open>processor["validation"]\<close>.
\<close>

definition build_trainer :: "args \<Rightarrow> world \<Rightarrow> locals \<Rightarrow> locals" where
  "build_trainer a w s =
     (case v_model s of
        None \<Rightarrow> raise (UnboundLocalError ''model'') s
      | Some m \<Rightarrow>
          (case v_processor s of
             None \<Rightarrow> raise (UnboundLocalError ''processor'') s
           | Some d \<Rightarrow>
               (case d ''train'' of
                  None \<Rightarrow> raise (KeyError ''train'') s
                | Some tr \<Rightarrow>
                    (case d ''validation'' of
                       None \<Rightarrow> raise (KeyError ''validation'') s
                     | Some va \<Rightarrow>
                         steps [call w BuildTrainer, (\<lambda>s. s\<lparr>v_trainer := Some m\<rparr>)] s))))"

text \<open>
  Line 217, \<^verbatim>\<open>model.config.use_cache = False\<close>, reads \<^verbatim>\<open>model\<close> once more. The
  attribute assignments of lines 213 to 215 change nothing that is modelled.
\<close>

definition silence_cache :: "args \<Rightarrow> world \<Rightarrow> locals \<Rightarrow> locals" where
  "silence_cache a w s =
     (case v_model s of None \<Rightarrow> raise (UnboundLocalError ''model'') s | Some m \<Rightarrow> s)"

definition train :: "args \<Rightarrow> world \<Rightarrow> locals \<Rightarrow> locals" where
  "train a w s = call w Train s"

definition save_model :: "args \<Rightarrow> world \<Rightarrow> locals \<Rightarrow> locals" where
  "save_model a w s = call w SavePretrained s"

subsection \<open>\<^verbatim>\<open>main\<close>\<close>

definition setup_stmts :: "args \<Rightarrow> world \<Rightarrow> (locals \<Rightarrow> locals) list" where
  "setup_stmts a w =
     [detect_checkpoint a w, set_seed a w, load_config a w, load_tokenizer a w,
      fix_pad_token a w, quantize_config a w, pick_cls a w, load_model a w]"

definition train_stmts :: "args \<Rightarrow> world \<Rightarrow> (locals \<Rightarrow> locals) list" where
  "train_stmts a w =
     [build_collator a w, build_trainer a w, silence_cache a w, train a w, save_model a w]"

definition main :: "args \<Rightarrow> world \<Rightarrow> locals" where
  "main a w =
     steps (setup_stmts a w @ [lora_block a w, build_processor a w] @ train_stmts a w)
       init_locals"

text \<open>The state in which \<^verbatim>\<open>main\<close> reaches line 146, and the one in which it reaches line 192.\<close>

definition before_lora :: "args \<Rightarrow> world \<Rightarrow> locals" where
  "before_lora a w = steps (setup_stmts a w) init_locals"

definition before_collator :: "args \<Rightarrow> world \<Rightarrow> locals" where
  "before_collator a w =
     steps (setup_stmts a w @ [lora_block a w, build_processor a w]) init_locals"

subsection \<open>Which part of \<^verbatim>\<open>main\<close> makes a call\<close>

text \<open>
  Log lines and prints are 0; the calls of lines 75 to 144 are 1, those of the
  adaptation block 2, and those of lines 192 to 223 (collator, trainer, training,
  saving) 3. \<open>adds_only n f\<close>: the statement \<open>f\<close> appends to the trace, and only
  calls of part \<open>n\<close> or earlier.
\<close>

fun phase_of :: "event \<Rightarrow> nat" where
  "phase_of (LogInfo m) = 0"
| "phase_of (LogWarning m) = 0"
| "phase_of (Printed m) = 0"
| "phase_of (SetSeed n) = 1"
| "phase_of (ConfigFromPretrained name) = 1"
| "phase_of (ConfigFromMapping t) = 1"
| "phase_of (ConfigUpdateFromString v) = 1"
| "phase_of (TokenizerFromPretrained name trust) = 1"
| "phase_of BuildQuantConfig = 1"
| "phase_of (ModelFromPretrained c name q) = 1"
| "phase_of (BuildLoraConfig tm) = 2"
| "phase_of PrepareInt8 = 2"
| "phase_of GetPeftModel = 2"
| "phase_of (PrintedTrainable t n) = 0"
| "phase_of BuildCollator = 3"
| "phase_of BuildTrainer = 3"
| "phase_of Train = 3"
| "phase_of SavePretrained = 3"

definition adds_only :: "nat \<Rightarrow> (locals \<Rightarrow> locals) \<Rightarrow> bool" where
  "adds_only n f =
     (\<forall>s. \<exists>evs. trace (f s) = trace s @ evs \<and> list_all (\<lambda>ev. phase_of ev \<le> n) evs)"

section \<open>Concrete inputs\<close>

text \<open>
  A small tokenizer that honours \<^verbatim>\<open>padding="max_length"\<close> and
  \<^verbatim>\<open>truncation=True\<close>: one token per character, cut to \<^verbatim>\<open>max_length\<close> and filled
  up with the padding id 1.
\<close>

definition toy_call :: "tokenizer_call \<Rightarrow> encoding" where
  "toy_call c =
     (let s = (case kw_text c of
                 Some x \<Rightarrow> x
               | None \<Rightarrow> (case kw_text_target c of Some y \<Rightarrow> y | None \<Rightarrow> []));
          raw = map (\<lambda>ch. if ch = CHR ''a'' then 5 else 7) s
      in case kw_max_length c of
           None \<Rightarrow> \<lparr>input_ids = raw, attention_mask = map (\<lambda>_. 1) raw\<rparr>
         | Some n \<Rightarrow>
             (let kept = (if kw_truncation c then take (nat n) raw else raw);
                  fill = (if kw_padding c = ''max_length'' then nat n - length kept else 0)
              in \<lparr>input_ids = kept @ replicate fill 1,
                  attention_mask = map (\<lambda>_. 1) kept @ replicate fill 0\<rparr>))"

definition toy_tokenizer :: tokenizer where
  "toy_tokenizer =
     \<lparr>tok_call = toy_call, pad_token_id = Some 1, eos_token_id = Some 1,
      padding_side = ''right''\<rparr>"

definition local_data_args :: data_args where
  "local_data_args =
     \<lparr>train_dir = Some ''data'', data_name = None, dataset_name_train = None,
      max_train_samples = None, valid_dir = Some ''data'', dataset_name_validation = None,
      max_valid_samples = None, streaming = False, max_len = Some 4,
      dataset_num_workers = Some 2\<rparr>"

definition toy_processor :: processor where
  "toy_processor =
     \<lparr>p_tokenizer = toy_tokenizer, p_batch_size = 8, p_data_args = local_data_args,
      p_seed = 42\<rparr>"

definition toy_example :: example where
  "toy_example = [''inputs'' \<mapsto> ''ab'', ''targets'' \<mapsto> ''abcdef'']"

definition short_example :: example where
  "short_example = [''inputs'' \<mapsto> ''abcdef'', ''targets'' \<mapsto> ''ba'']"

text \<open>
  A world in which nothing fails: the output directory does not exist, every data path
  exists and holds both splits, every model has a frozen and a trainable parameter, and
  every library call returns.
\<close>

definition plain_world :: world where
  "plain_world =
     \<lparr>isdir = (\<lambda>_. False), listdir = (\<lambda>_. []), get_last_checkpoint = (\<lambda>_. None),
      path_exists = (\<lambda>_. True), load_from_disk = (\<lambda>_. Inr [''train'', ''validation'']),
      load_dataset = (\<lambda>_ _. None), pretrained_tokenizer = (\<lambda>_. toy_tokenizer),
      named_parameters = (\<lambda>_. [(1000, False), (24, True)]), fails = (\<lambda>_. None)\<rparr>"

text \<open>The same world with an output directory that holds a file and no checkpoint.\<close>

definition used_dir_world :: world where
  "used_dir_world =
     plain_world\<lparr>isdir := (\<lambda>_. True), listdir := (\<lambda>_. [''notes.txt''])\<rparr>"

text \<open>The same world with an output directory that holds a checkpoint.\<close>

definition checkpoint_world :: world where
  "checkpoint_world =
     plain_world\<lparr>isdir := (\<lambda>_. True), listdir := (\<lambda>_. [''checkpoint-500'']),
                 get_last_checkpoint := (\<lambda>d. Some (d @ ''/checkpoint-500''))\<rparr>"

text \<open>A world whose data directory exists and cannot be read, and one where it is missing.\<close>

definition unreadable_world :: world where
  "unreadable_world =
     plain_world\<lparr>load_from_disk := (\<lambda>_. Inl (LibraryError ''FileNotFoundError''))\<rparr>"

definition missing_world :: world where
  "missing_world = plain_world\<lparr>path_exists := (\<lambda>_. False)\<rparr>"

text \<open>
  A configuration with every source given: a pretrained mT5 model, local train and
  validation directories, and the adaptation layer with a target-module request.
\<close>

definition plain_args :: args where
  "plain_args =
     \<lparr>m_args = \<lparr>config_name = None, model_name_or_path = Some ''google/mt5-small'',
                 model_type = None, config_overrides = None, tokenizer_name = None,
                 quantize = False\<rparr>,
      d_args = local_data_args,
      t_args = \<lparr>output_dir = ''out'', do_train = True, overwrite_output_dir = False,
                 resume_from_checkpoint = None, seed = 42, gradient_checkpointing = False,
                 per_device_train_batch_size = 8\<rparr>,
      l_args = \<lparr>use_lora = True, target_modules = Some ''q,v'', att_blocks = False,
                 use_int8_training = False\<rparr>\<rparr>"

text \<open>The same with a model of a family that has no target-module list.\<close>

definition bart_args :: args where
  "bart_args =
     plain_args\<lparr>m_args := (m_args plain_args)\<lparr>model_name_or_path := Some ''facebook/bart-base''\<rparr>\<rparr>"

text \<open>The same as \<open>plain_args\<close> without the adaptation layer.\<close>

definition no_lora_args :: args where
  "no_lora_args = plain_args\<lparr>l_args := (l_args plain_args)\<lparr>use_lora := False\<rparr>\<rparr>"

text \<open>The same as \<open>plain_args\<close> with no validation source.\<close>

definition no_valid_args :: args where
  "no_valid_args = plain_args\<lparr>d_args := local_data_args\<lparr>valid_dir := None\<rparr>\<rparr>"

text \<open>Data arguments that name a hub dataset, with and without a sample cap.\<close>

definition hub_data_args :: data_args where
  "hub_data_args =
     \<lparr>train_dir = None, data_name = None, dataset_name_train = Some ''mt_eng_vietnamese'',
      max_train_samples = None, valid_dir = None,
      dataset_name_validation = Some ''mt_eng_vietnamese'', max_valid_samples = None,
      streaming = True, max_len = Some 4, dataset_num_workers = Some 2\<rparr>"

definition hub_processor :: processor where
  "hub_processor = toy_processor\<lparr>p_data_args := hub_data_args\<rparr>"


section \<open>Label masking\<close>

lemma mask_labels_length: "length (mask_labels pad ids) = length ids"
  by (simp add: mask_labels_def)

lemma mask_labels_nth:
  "i < length ids \<Longrightarrow>
   mask_labels pad ids ! i = (if Some (ids ! i) \<noteq> pad then ids ! i else - 100)"
  by (simp add: mask_labels_def)

lemma mask_labels_no_pad:
  assumes "pad \<noteq> Some (- 100)" and "l \<in> set (mask_labels pad ids)"
  shows "Some l \<noteq> pad"
  using assms by (auto simp: mask_labels_def split: if_splits)

lemma group_fn_labels:
  assumes "group_fn p example = Inr r"
  obtains tgt where "example ''targets'' = Some tgt"
    and "labels r = mask_labels (pad_token_id (p_tokenizer p))
                      (input_ids (tokenize_fn p tgt (max_len (p_data_args p)) True True))"
  using assms
  by (auto simp: group_fn_def Let_def split: option.splits)

lemma group_fn_input_ids:
  assumes "group_fn p example = Inr r"
  obtains src where "example ''inputs'' = Some src"
    and "input_ids r = input_ids (tokenize_fn p src (max_len (p_data_args p)) True False)"
  using assms
  by (auto simp: group_fn_def Let_def split: option.splits)

text \<open>
  Claim C1. Whenever \<^verbatim>\<open>group_fn\<close> returns, no element of the label sequence is the
  tokenizer's padding id, and the label sequence is the tokenized target with exactly
  the positions that held the padding id rewritten to \<open>- 100\<close>, every other position
  unchanged. The padding id is a vocabulary index, so it is not \<open>- 100\<close> itself; the
  second half holds without that.
\<close>

theorem labels_hold_no_padding_id:
  assumes "group_fn p example = Inr r"
    and "pad_token_id (p_tokenizer p) \<noteq> Some (- 100)"
  shows "(\<forall>l \<in> set (labels r). Some l \<noteq> pad_token_id (p_tokenizer p)) \<and>
         (\<exists>tgt. example ''targets'' = Some tgt \<and>
            (let ids = input_ids (tokenize_fn p tgt (max_len (p_data_args p)) True True)
             in length (labels r) = length ids \<and>
                (\<forall>i < length ids.
                   labels r ! i =
                     (if Some (ids ! i) = pad_token_id (p_tokenizer p) then - 100
                      else ids ! i))))"
proof -
  from assms(1) obtain tgt where tgt: "example ''targets'' = Some tgt"
    and lab: "labels r = mask_labels (pad_token_id (p_tokenizer p))
                (input_ids (tokenize_fn p tgt (max_len (p_data_args p)) True True))"
    by (rule group_fn_labels)
  have "\<forall>l \<in> set (labels r). Some l \<noteq> pad_token_id (p_tokenizer p)"
    using mask_labels_no_pad [OF assms(2)] lab by auto
  moreover have "\<exists>tgt. example ''targets'' = Some tgt \<and>
            (let ids = input_ids (tokenize_fn p tgt (max_len (p_data_args p)) True True)
             in length (labels r) = length ids \<and>
                (\<forall>i < length ids.
                   labels r ! i =
                     (if Some (ids ! i) = pad_token_id (p_tokenizer p) then - 100
                      else ids ! i)))"
    using tgt lab by (auto simp: Let_def mask_labels_length mask_labels_nth)
  ultimately show ?thesis by blast
qed

text \<open>The toy tokenizer on a two-character target, padded to four tokens.\<close>

lemma toy_group_short:
  "group_fn toy_processor short_example =
     Inr \<lparr>input_ids = [5, 7, 7, 7], attention_mask = [1, 1, 1, 1],
          labels = [7, 5, - 100, - 100]\<rparr>"
  by (simp add: group_fn_def tokenize_fn_def toy_processor_def toy_tokenizer_def
      toy_call_def short_example_def local_data_args_def mask_labels_def Let_def
      eval_nat_numeral)


theorem labels_hold_no_padding_id_witness:
  "group_fn toy_processor short_example =
     Inr \<lparr>input_ids = [5, 7, 7, 7], attention_mask = [1, 1, 1, 1],
          labels = [7, 5, - 100, - 100]\<rparr> \<and>
   pad_token_id (p_tokenizer toy_processor) = Some 1 \<and>
   1 \<notin> set [7, 5, - 100, - 100 :: int]"
proof -
  have pad: "pad_token_id (p_tokenizer toy_processor) = Some 1"
    by (simp add: toy_processor_def toy_tokenizer_def)
  then have ne: "pad_token_id (p_tokenizer toy_processor) \<noteq> Some (- 100)"
    by simp
  from labels_hold_no_padding_id [OF toy_group_short ne] pad
  have "\<forall>l \<in> set [7, 5, - 100, - 100 :: int]. l \<noteq> 1" by simp
  then have "1 \<notin> set [7, 5, - 100, - 100 :: int]" by blast
  with toy_group_short pad show ?thesis by blast
qed

section \<open>Tokenized lengths\<close>

lemma tokenize_fn_length:
  assumes contract:
      "\<And>c. kw_padding c = ''max_length'' \<Longrightarrow> kw_truncation c \<Longrightarrow> kw_max_length c = Some L \<Longrightarrow>
            int (length (input_ids (tok_call (p_tokenizer p) c))) = L"
  shows "int (length (input_ids (tokenize_fn p x (Some L) padding target))) = L"
proof (cases target)
  case True
  then have "tokenize_fn p x (Some L) padding target =
     tok_call (p_tokenizer p)
          \<lparr>kw_text = None, kw_text_target = Some x, kw_max_length = Some L,
           kw_padding = ''max_length'', kw_truncation = True\<rparr>"
    by (simp add: tokenize_fn_def)
  then show ?thesis by (simp only:) (rule contract, simp_all)
next
  case False
  then have "tokenize_fn p x (Some L) padding target =
     tok_call (p_tokenizer p)
          \<lparr>kw_text = Some x, kw_text_target = None, kw_max_length = Some L,
           kw_padding = ''max_length'', kw_truncation = True\<rparr>"
    by (simp add: tokenize_fn_def)
  then show ?thesis by (simp only:) (rule contract, simp_all)
qed

text \<open>
  Claim C2. For a tokenizer that honours \<^verbatim>\<open>padding="max_length"\<close> with
  \<^verbatim>\<open>truncation=True\<close> (every such call with \<^verbatim>\<open>max_length=L\<close> answers with
  \<open>L\<close> ids) and a configured \<^verbatim>\<open>max_len\<close> of \<open>L\<close>, the label sequence of every
  processed example has length \<open>L\<close>, and as many tokens as the input sequence.
\<close>

theorem label_length_is_max_len:
  assumes contract:
      "\<And>c. kw_padding c = ''max_length'' \<Longrightarrow> kw_truncation c \<Longrightarrow> kw_max_length c = Some L \<Longrightarrow>
            int (length (input_ids (tok_call (p_tokenizer p) c))) = L"
    and len: "max_len (p_data_args p) = Some L"
    and run: "group_fn p example = Inr r"
  shows "int (length (labels r)) = L \<and> length (labels r) = length (input_ids r)"
proof -
  from run obtain tgt where
    lab: "labels r = mask_labels (pad_token_id (p_tokenizer p))
                (input_ids (tokenize_fn p tgt (max_len (p_data_args p)) True True))"
    by (rule group_fn_labels)
  from run obtain src where
    inp: "input_ids r = input_ids (tokenize_fn p src (max_len (p_data_args p)) True False)"
    by (rule group_fn_input_ids)
  have l1: "int (length (labels r)) = L"
    unfolding lab mask_labels_length len
    by (rule tokenize_fn_length [OF contract])
  have l2: "int (length (input_ids r)) = L"
    unfolding inp len
    by (rule tokenize_fn_length [OF contract])
  from l1 l2 show ?thesis by simp
qed

lemma toy_call_contract:
  assumes "kw_padding c = ''max_length''" "kw_truncation c" "kw_max_length c = Some L" "0 \<le> L"
  shows "int (length (input_ids (toy_call c))) = L"
proof -
  have "input_ids (toy_call c) =
      take (nat L) (map (\<lambda>ch. if ch = CHR ''a'' then 5 else 7)
         (case kw_text c of Some x \<Rightarrow> x
          | None \<Rightarrow> (case kw_text_target c of Some y \<Rightarrow> y | None \<Rightarrow> []))) @
      replicate (nat L - length (take (nat L) (map (\<lambda>ch. if ch = CHR ''a'' then 5 else 7)
         (case kw_text c of Some x \<Rightarrow> x
          | None \<Rightarrow> (case kw_text_target c of Some y \<Rightarrow> y | None \<Rightarrow> []))))) 1"
    using assms(1-3) by (simp add: toy_call_def Let_def)
  then have "length (input_ids (toy_call c)) = nat L"
    by simp
  with assms(4) show ?thesis by simp
qed

lemma toy_group:
  "group_fn toy_processor toy_example =
     Inr \<lparr>input_ids = [5, 7, 1, 1], attention_mask = [1, 1, 0, 0],
          labels = [5, 7, 7, 7]\<rparr>"
  by (simp add: group_fn_def tokenize_fn_def toy_processor_def toy_tokenizer_def
      toy_call_def toy_example_def local_data_args_def mask_labels_def Let_def eval_nat_numeral)

theorem label_length_is_max_len_witness:
  "max_len (p_data_args toy_processor) = Some 4 \<and>
   group_fn toy_processor toy_example =
     Inr \<lparr>input_ids = [5, 7, 1, 1], attention_mask = [1, 1, 0, 0],
          labels = [5, 7, 7, 7]\<rparr> \<and>
   int (length [5, 7, 7, 7 :: int]) = 4 \<and>
   length [5, 7, 7, 7 :: int] = length [5, 7, 1, 1 :: int]"
proof -
  have len: "max_len (p_data_args toy_processor) = Some 4"
    by (simp add: toy_processor_def local_data_args_def)
  have tk: "tok_call (p_tokenizer toy_processor) = toy_call"
    by (simp add: toy_processor_def toy_tokenizer_def)
  have contract: "\<And>c. kw_padding c = ''max_length'' \<Longrightarrow> kw_truncation c \<Longrightarrow>
      kw_max_length c = Some 4 \<Longrightarrow>
      int (length (input_ids (tok_call (p_tokenizer toy_processor) c))) = 4"
    unfolding tk by (rule toy_call_contract) simp_all
  have "int (length (labels \<lparr>input_ids = [5, 7, 1, 1], attention_mask = [1, 1, 0, 0],
          labels = [5, 7, 7, 7]\<rparr>)) = 4 \<and>
        length (labels \<lparr>input_ids = [5, 7, 1, 1], attention_mask = [1, 1, 0, 0],
          labels = [5, 7, 7, 7]\<rparr>) =
        length (input_ids \<lparr>input_ids = [5, 7, 1, 1], attention_mask = [1, 1, 0, 0],
          labels = [5, 7, 7, 7]\<rparr>)"
    by (rule label_length_is_max_len [OF contract len toy_group])
  with len toy_group show ?thesis by simp
qed

section \<open>Loading from disk\<close>

lemma load_data_missing:
  "\<not> path_exists w path \<Longrightarrow>
   load_data w p path key out = (Inl (ValueError (''Not found '' @ path @ '' path.'')), out)"
  by (simp add: load_data_def)

lemma load_data_throws:
  "path_exists w path \<Longrightarrow> load_from_disk w path = Inl e \<Longrightarrow>
   load_data w p path key out =
     (Inr None, out @ [LogInfo (''Error loading dataset '' @ path),
                       Printed (''Error loading dataset '' @ path)])"
  by (simp add: load_data_def)

lemma call_train_missing:
  assumes "train_dir (p_data_args p) = Some path" "data_name (p_data_args p) = None"
    "\<not> path_exists w path"
  shows "call_train w p ds out = (Inl (ValueError (''Not found '' @ path @ '' path.'')), out)"
  using assms by (simp add: call_train_def Let_def load_data_missing)

lemma call_train_throws:
  assumes "train_dir (p_data_args p) = Some path" "data_name (p_data_args p) = None"
    "path_exists w path" "load_from_disk w path = Inl e"
  shows "call_train w p ds out =
     (Inl (AttributeError
             (if max_train_samples (p_data_args p) \<noteq> None
              then ''NoneType object has no attribute select''
              else ''NoneType object has no attribute map'')),
      out @ [LogInfo (''Error loading dataset '' @ path),
             Printed (''Error loading dataset '' @ path)])"
  using assms
  by (simp add: call_train_def Let_def load_data_throws select_range_def process_fn_def)

lemma call_valid_missing:
  assumes "valid_dir (p_data_args p) = Some path" "\<not> path_exists w path"
  shows "call_valid w p ds out = (Inl (ValueError (''Not found '' @ path @ '' path.'')), out)"
  using assms by (simp add: call_valid_def Let_def load_data_missing)

lemma call_valid_throws:
  assumes "valid_dir (p_data_args p) = Some path"
    "path_exists w path" "load_from_disk w path = Inl e"
  shows "call_valid w p ds out =
     (Inl (AttributeError
             (if max_valid_samples (p_data_args p) \<noteq> None
              then ''NoneType object has no attribute select''
              else ''NoneType object has no attribute map'')),
      out @ [LogInfo (''Error loading dataset '' @ path),
             Printed (''Error loading dataset '' @ path)])"
  using assms
  by (simp add: call_valid_def Let_def load_data_throws select_range_def process_fn_def)

lemma Processor_call_train_error:
  "call_train w p Map.empty out = (Inl e, out1) \<Longrightarrow> Processor_call w p out = (Inl e, out1)"
  by (simp add: Processor_call_def)

text \<open>
  Claim C4, as amended. A local path that does not exist makes \<^verbatim>\<open>load_data\<close>, and
  with it the whole call of the Data Processor, fail at once with a \<^verbatim>\<open>ValueError\<close>.
  When the path exists and \<^verbatim>\<open>load_from_disk\<close> throws, \<^verbatim>\<open>load_data\<close> catches the
  error, logs and prints it, and returns \<^verbatim>\<open>None\<close>; the caller does not skip the
  split but uses that value: the next \<^verbatim>\<open>select\<close> or \<^verbatim>\<open>map\<close> raises
  \<^verbatim>\<open>AttributeError\<close>, and no result is returned. The same holds for the validation
  half.
\<close>

theorem load_failure_modes:
  "(\<not> path_exists w path \<longrightarrow>
      load_data w p path key out =
        (Inl (ValueError (''Not found '' @ path @ '' path.'')), out)) \<and>
   (path_exists w path \<and> load_from_disk w path = Inl e \<longrightarrow>
      load_data w p path key out =
        (Inr None, out @ [LogInfo (''Error loading dataset '' @ path),
                          Printed (''Error loading dataset '' @ path)])) \<and>
   (train_dir (p_data_args p) = Some path \<and> data_name (p_data_args p) = None \<and>
    \<not> path_exists w path \<longrightarrow>
      Processor_call w p out =
        (Inl (ValueError (''Not found '' @ path @ '' path.'')), out)) \<and>
   (train_dir (p_data_args p) = Some path \<and> data_name (p_data_args p) = None \<and>
    path_exists w path \<and> load_from_disk w path = Inl e \<longrightarrow>
      Processor_call w p out =
        (Inl (AttributeError
                (if max_train_samples (p_data_args p) \<noteq> None
                 then ''NoneType object has no attribute select''
                 else ''NoneType object has no attribute map'')),
         out @ [LogInfo (''Error loading dataset '' @ path),
                Printed (''Error loading dataset '' @ path)])) \<and>
   (valid_dir (p_data_args p) = Some path \<and> \<not> path_exists w path \<longrightarrow>
      call_valid w p ds out =
        (Inl (ValueError (''Not found '' @ path @ '' path.'')), out)) \<and>
   (valid_dir (p_data_args p) = Some path \<and>
    path_exists w path \<and> load_from_disk w path = Inl e \<longrightarrow>
      call_valid w p ds out =
        (Inl (AttributeError
                (if max_valid_samples (p_data_args p) \<noteq> None
                 then ''NoneType object has no attribute select''
                 else ''NoneType object has no attribute map'')),
         out @ [LogInfo (''Error loading dataset '' @ path),
                Printed (''Error loading dataset '' @ path)]))"
proof (intro conjI impI)
  assume "\<not> path_exists w path"
  then show "load_data w p path key out =
      (Inl (ValueError (''Not found '' @ path @ '' path.'')), out)"
    by (rule load_data_missing)
next
  assume "path_exists w path \<and> load_from_disk w path = Inl e"
  then show "load_data w p path key out =
      (Inr None, out @ [LogInfo (''Error loading dataset '' @ path),
                        Printed (''Error loading dataset '' @ path)])"
    by (simp add: load_data_throws)
next
  assume "train_dir (p_data_args p) = Some path \<and> data_name (p_data_args p) = None \<and>
    \<not> path_exists w path"
  then have "call_train w p Map.empty out =
      (Inl (ValueError (''Not found '' @ path @ '' path.'')), out)"
    by (simp add: call_train_missing)
  then show "Processor_call w p out =
      (Inl (ValueError (''Not found '' @ path @ '' path.'')), out)"
    by (rule Processor_call_train_error)
next
  assume "train_dir (p_data_args p) = Some path \<and> data_name (p_data_args p) = None \<and>
    path_exists w path \<and> load_from_disk w path = Inl e"
  then have "call_train w p Map.empty out =
      (Inl (AttributeError
                (if max_train_samples (p_data_args p) \<noteq> None
                 then ''NoneType object has no attribute select''
                 else ''NoneType object has no attribute map'')),
         out @ [LogInfo (''Error loading dataset '' @ path),
                Printed (''Error loading dataset '' @ path)])"
    by (simp only: call_train_throws)
  then show "Processor_call w p out =
      (Inl (AttributeError
                (if max_train_samples (p_data_args p) \<noteq> None
                 then ''NoneType object has no attribute select''
                 else ''NoneType object has no attribute map'')),
         out @ [LogInfo (''Error loading dataset '' @ path),
                Printed (''Error loading dataset '' @ path)])"
    by (rule Processor_call_train_error)
next
  assume "valid_dir (p_data_args p) = Some path \<and> \<not> path_exists w path"
  then show "call_valid w p ds out =
      (Inl (ValueError (''Not found '' @ path @ '' path.'')), out)"
    by (simp add: call_valid_missing)
next
  assume "valid_dir (p_data_args p) = Some path \<and>
    path_exists w path \<and> load_from_disk w path = Inl e"
  then show "call_valid w p ds out =
      (Inl (AttributeError
                (if max_valid_samples (p_data_args p) \<noteq> None
                 then ''NoneType object has no attribute select''
                 else ''NoneType object has no attribute map'')),
         out @ [LogInfo (''Error loading dataset '' @ path),
                Printed (''Error loading dataset '' @ path)])"
    by (simp only: call_valid_throws)
qed

lemma toy_local_dirs:
  "train_dir (p_data_args toy_processor) = Some ''data''"
  "data_name (p_data_args toy_processor) = None"
  "valid_dir (p_data_args toy_processor) = Some ''data''"
  "max_train_samples (p_data_args toy_processor) = None"
  "max_valid_samples (p_data_args toy_processor) = None"
  by (simp_all add: toy_processor_def local_data_args_def)

lemma missing_world_path: "\<not> path_exists missing_world ''data''"
  by (simp add: missing_world_def plain_world_def)

lemma unreadable_world_path:
  "path_exists unreadable_world ''data''"
  "load_from_disk unreadable_world ''data'' = Inl (LibraryError ''FileNotFoundError'')"
  by (simp_all add: unreadable_world_def plain_world_def)

theorem load_failure_modes_witness:
  "\<not> path_exists missing_world ''data'' \<and>
   path_exists unreadable_world ''data'' \<and>
   load_from_disk unreadable_world ''data'' = Inl (LibraryError ''FileNotFoundError'') \<and>
   Processor_call missing_world toy_processor [] =
     (Inl (ValueError ''Not found data path.''), []) \<and>
   load_data unreadable_world toy_processor ''data'' ''train'' [] =
     (Inr None, [LogInfo ''Error loading dataset data'',
                 Printed ''Error loading dataset data'']) \<and>
   Processor_call unreadable_world toy_processor [] =
     (Inl (AttributeError ''NoneType object has no attribute map''),
      [LogInfo ''Error loading dataset data'', Printed ''Error loading dataset data'']) \<and>
   call_valid missing_world toy_processor Map.empty [] =
     (Inl (ValueError ''Not found data path.''), []) \<and>
   call_valid unreadable_world toy_processor Map.empty [] =
     (Inl (AttributeError ''NoneType object has no attribute map''),
      [LogInfo ''Error loading dataset data'', Printed ''Error loading dataset data''])"
  using load_failure_modes [of missing_world "''data''" toy_processor "''train''" "[]"
          "LibraryError ''FileNotFoundError''" Map.empty]
        load_failure_modes [of unreadable_world "''data''" toy_processor "''train''" "[]"
          "LibraryError ''FileNotFoundError''" Map.empty]
        toy_local_dirs missing_world_path unreadable_world_path
  by simp

text \<open>
  The claim as written says that after a swallowed loading error the run goes on with
  the split absent from the result. On a directory that exists and cannot be read the
  Data Processor returns no result at all.
\<close>

theorem load_failure_split_absent_counterexample:
  "path_exists unreadable_world ''data'' \<and>
   load_from_disk unreadable_world ''data'' = Inl (LibraryError ''FileNotFoundError'') \<and>
   train_dir (p_data_args toy_processor) = Some ''data'' \<and>
   data_name (p_data_args toy_processor) = None \<and>
   Processor_call unreadable_world toy_processor [] =
     (Inl (AttributeError ''NoneType object has no attribute map''),
      [LogInfo ''Error loading dataset data'', Printed ''Error loading dataset data''])"
  by (simp add: Processor_call_def call_train_def load_data_def process_fn_def
      unreadable_world_def plain_world_def toy_processor_def local_data_args_def Let_def)

section \<open>The pipelines the Data Processor builds\<close>

lemma process_fn_Some:
  "process_fn p (Some d) =
     Inr (DsMap GroupFn NotPassed
            (if streaming (p_data_args p) then NotPassed
             else Passed (dataset_num_workers (p_data_args p)))
            [''inputs'', ''targets''] d)"
  by (simp add: process_fn_def)

lemma process_fn_Inr:
  assumes "process_fn p x = Inr y"
  obtains d where "x = Some d"
    and "y = DsMap GroupFn NotPassed
            (if streaming (p_data_args p) then NotPassed
             else Passed (dataset_num_workers (p_data_args p)))
            [''inputs'', ''targets''] d"
  using assms by (cases x) (auto simp: process_fn_def split: if_splits)


lemma call_train_other_keys:
  assumes "call_train w p ds out = (Inr ds', out')" and "k \<noteq> ''train''"
  shows "ds' k = ds k"
  using assms
  by (auto simp: call_train_def Let_def split: if_splits prod.splits sum.splits option.splits)

lemma Processor_call_Inr:
  assumes "Processor_call w p out = (Inr ds, out')"
  obtains ds1 out1 where "call_train w p Map.empty out = (Inr ds1, out1)"
    and "call_valid w p ds1 out1 = (Inr ds, out')"
  using assms by (auto simp: Processor_call_def split: prod.splits sum.splits)



lemma hub_processor_args:
  "\<not> (train_dir (p_data_args hub_processor) \<noteq> None \<and> data_name (p_data_args hub_processor) = None)"
  "dataset_name_train (p_data_args hub_processor) = Some ''mt_eng_vietnamese''"
  "max_train_samples (p_data_args hub_processor) = None"
  "streaming (p_data_args hub_processor)"
  "p_seed hub_processor = 42"
  by (simp_all add: hub_processor_def toy_processor_def hub_data_args_def)




lemma call_train_entry:
  assumes "call_train w p ds out = (Inr ds', out')" and "ds' k = Some x"
  shows "ds k = Some x \<or>
         (\<exists>d. x = DsMap GroupFn NotPassed
                  (if streaming (p_data_args p) then NotPassed
                   else Passed (dataset_num_workers (p_data_args p)))
                  [''inputs'', ''targets''] d \<and>
              (\<forall>np \<in> set (num_procs d). np = NotPassed))"
  using assms
  by (auto simp: call_train_def Let_def load_data_def select_range_def process_fn_def
           split: if_splits prod.splits sum.splits option.splits)

lemma call_valid_entry:
  assumes "call_valid w p ds out = (Inr ds', out')" and "ds' k = Some x"
  shows "ds k = Some x \<or>
         (\<exists>d. x = DsMap GroupFn NotPassed
                  (if streaming (p_data_args p) then NotPassed
                   else Passed (dataset_num_workers (p_data_args p)))
                  [''inputs'', ''targets''] d \<and>
              (\<forall>np \<in> set (num_procs d). np = NotPassed))"
  using assms
  by (auto simp: call_valid_def Let_def load_data_def select_range_def process_fn_def
           split: if_splits prod.splits sum.splits option.splits)

lemma Processor_call_entry:
  assumes "Processor_call w p out = (Inr ds, out')" and "ds k = Some x"
  obtains d where
    "x = DsMap GroupFn NotPassed
           (if streaming (p_data_args p) then NotPassed
            else Passed (dataset_num_workers (p_data_args p)))
           [''inputs'', ''targets''] d"
    and "\<forall>np \<in> set (num_procs d). np = NotPassed"
proof -
  from assms(1) obtain ds1 out1 where
    t: "call_train w p Map.empty out = (Inr ds1, out1)"
    and v: "call_valid w p ds1 out1 = (Inr ds, out')"
    by (rule Processor_call_Inr)
  from call_valid_entry [OF v assms(2)] call_train_entry [OF t, of k x]
  show ?thesis using that by auto
qed

lemma all_NotPassed_replicate:
  "(\<forall>np \<in> set xs. np = NotPassed) \<Longrightarrow> xs = replicate (length xs) NotPassed"
  by (induction xs) auto

text \<open>
  Claim C8. \<^verbatim>\<open>process_fn\<close> passes \<^verbatim>\<open>num_proc=dataset_num_workers\<close> to \<^verbatim>\<open>map\<close>
  exactly when streaming is off. In every split the Data Processor returns, with
  streaming on no \<^verbatim>\<open>map\<close> call of the pipeline has a \<^verbatim>\<open>num_proc\<close> argument, and
  with streaming off the \<^verbatim>\<open>group_fn\<close> map (the outermost call) has the configured
  worker count and no other \<^verbatim>\<open>map\<close> call has one.
\<close>

theorem num_proc_only_when_not_streaming:
  "process_fn p (Some d) =
     Inr (DsMap GroupFn NotPassed
            (if streaming (p_data_args p) then NotPassed
             else Passed (dataset_num_workers (p_data_args p)))
            [''inputs'', ''targets''] d) \<and>
   (\<forall>ds out' k x.
      Processor_call w p out = (Inr ds, out') \<and> ds k = Some x \<longrightarrow>
        (streaming (p_data_args p) \<longrightarrow> (\<forall>np \<in> set (num_procs x). np = NotPassed)) \<and>
        (\<not> streaming (p_data_args p) \<longrightarrow>
           num_procs x =
             Passed (dataset_num_workers (p_data_args p)) #
             replicate (length (num_procs x) - 1) NotPassed))"
proof (intro conjI allI impI)
  show "process_fn p (Some d) =
     Inr (DsMap GroupFn NotPassed
            (if streaming (p_data_args p) then NotPassed
             else Passed (dataset_num_workers (p_data_args p)))
            [''inputs'', ''targets''] d)"
    by (rule process_fn_Some)
next
  fix ds out' k x
  assume run: "Processor_call w p out = (Inr ds, out') \<and> ds k = Some x"
    and st: "streaming (p_data_args p)"
  from run obtain d' where
    "x = DsMap GroupFn NotPassed
           (if streaming (p_data_args p) then NotPassed
            else Passed (dataset_num_workers (p_data_args p)))
           [''inputs'', ''targets''] d'"
    and "\<forall>np \<in> set (num_procs d'). np = NotPassed"
    by (blast elim: Processor_call_entry)
  with st show "\<forall>np \<in> set (num_procs x). np = NotPassed"
    by simp
next
  fix ds out' k x
  assume run: "Processor_call w p out = (Inr ds, out') \<and> ds k = Some x"
    and st: "\<not> streaming (p_data_args p)"
  from run obtain d' where
    x: "x = DsMap GroupFn NotPassed
           (if streaming (p_data_args p) then NotPassed
            else Passed (dataset_num_workers (p_data_args p)))
           [''inputs'', ''targets''] d'"
    and inner: "\<forall>np \<in> set (num_procs d'). np = NotPassed"
    by (blast elim: Processor_call_entry)
  from inner have "num_procs d' = replicate (length (num_procs d')) NotPassed"
    by (rule all_NotPassed_replicate)
  with x st show "num_procs x =
             Passed (dataset_num_workers (p_data_args p)) #
             replicate (length (num_procs x) - 1) NotPassed"
    by simp
qed

lemma toy_call_plain:
  "Processor_call plain_world toy_processor [] =
     (Inr [''train'' \<mapsto>
             DsMap GroupFn NotPassed (Passed (Some 2)) [''inputs'', ''targets'']
               (LoadFromDisk ''data'' ''train''),
           ''validation'' \<mapsto>
             DsMap GroupFn NotPassed (Passed (Some 2)) [''inputs'', ''targets'']
               (LoadFromDisk ''data'' ''validation'')], [])"
  by (simp add: Processor_call_def call_train_def call_valid_def load_data_def
      process_fn_def plain_world_def toy_processor_def local_data_args_def Let_def)

lemma hub_call_plain:
  "Processor_call plain_world hub_processor [] =
     (Inr [''train'' \<mapsto>
        DsMap GroupFn NotPassed NotPassed [''inputs'', ''targets'']
          (Shuffle 42 10000
             (Interleave
                [DsMap (A2B ''en'' ''vi'') (Passed True) NotPassed [''en'', ''vi'']
                   (LoadDataset ''mt_eng_vietnamese'' ''train'' (Passed True)),
                 DsMap (A2B ''vi'' ''en'') (Passed True) NotPassed [''en'', ''vi'']
                   (LoadDataset ''mt_eng_vietnamese'' ''train'' (Passed True))]
                42)),
           ''validation'' \<mapsto>
        DsMap GroupFn NotPassed NotPassed [''inputs'', ''targets'']
          (MultiTrans (LoadDataset ''mt_eng_vietnamese'' ''validation'' NotPassed)
             ''en'' ''vi'')], [])"
  by (simp add: Processor_call_def call_train_def call_valid_def
      process_fn_def plain_world_def hub_processor_def toy_processor_def hub_data_args_def
      Let_def)

theorem num_proc_only_when_not_streaming_witness:
  "\<not> streaming (p_data_args toy_processor) \<and>
   num_procs (DsMap GroupFn NotPassed (Passed (Some 2)) [''inputs'', ''targets'']
                (LoadFromDisk ''data'' ''train'')) = [Passed (Some 2)] \<and>
   streaming (p_data_args hub_processor) \<and>
   Passed (Some 2) \<notin> set (num_procs
     (DsMap GroupFn NotPassed NotPassed [''inputs'', ''targets'']
          (Shuffle 42 10000
             (Interleave
                [DsMap (A2B ''en'' ''vi'') (Passed True) NotPassed [''en'', ''vi'']
                   (LoadDataset ''mt_eng_vietnamese'' ''train'' (Passed True)),
                 DsMap (A2B ''vi'' ''en'') (Passed True) NotPassed [''en'', ''vi'']
                   (LoadDataset ''mt_eng_vietnamese'' ''train'' (Passed True))]
                42))))"
proof -
  have a: "\<not> streaming (p_data_args toy_processor)"
    and w: "dataset_num_workers (p_data_args toy_processor) = Some 2"
    by (simp_all add: toy_processor_def local_data_args_def)
  have b: "streaming (p_data_args hub_processor)"
    by (rule hub_processor_args)
  let ?x = "DsMap GroupFn NotPassed (Passed (Some 2)) [''inputs'', ''targets'']
                (LoadFromDisk ''data'' ''train'')"
  let ?y = "DsMap GroupFn NotPassed NotPassed [''inputs'', ''targets'']
          (Shuffle 42 10000
             (Interleave
                [DsMap (A2B ''en'' ''vi'') (Passed True) NotPassed [''en'', ''vi'']
                   (LoadDataset ''mt_eng_vietnamese'' ''train'' (Passed True)),
                 DsMap (A2B ''vi'' ''en'') (Passed True) NotPassed [''en'', ''vi'']
                   (LoadDataset ''mt_eng_vietnamese'' ''train'' (Passed True))]
                42))"
  have "[''train'' \<mapsto> ?x,
         ''validation'' \<mapsto>
             DsMap GroupFn NotPassed (Passed (Some 2)) [''inputs'', ''targets'']
               (LoadFromDisk ''data'' ''validation'')] ''train'' = Some ?x"
    by simp
  with num_proc_only_when_not_streaming [of toy_processor ?x plain_world "[]"]
    toy_call_plain a
  have "num_procs ?x =
      Passed (dataset_num_workers (p_data_args toy_processor)) #
      replicate (length (num_procs ?x) - 1) NotPassed"
    by blast
  then have 1: "num_procs ?x = [Passed (Some 2)]"
    by (simp add: w)
  have "[''train'' \<mapsto> ?y,
         ''validation'' \<mapsto>
        DsMap GroupFn NotPassed NotPassed [''inputs'', ''targets'']
          (MultiTrans (LoadDataset ''mt_eng_vietnamese'' ''validation'' NotPassed)
             ''en'' ''vi'')] ''train'' = Some ?y"
    by simp
  with num_proc_only_when_not_streaming [of hub_processor ?y plain_world "[]"]
    hub_call_plain b
  have "\<forall>np \<in> set (num_procs ?y). np = NotPassed"
    by blast
  then have 2: "Passed (Some 2) \<notin> set (num_procs ?y)"
    by blast
  from a b 1 2 show ?thesis by blast
qed

section \<open>Running \<^verbatim>\<open>main\<close>\<close>

lemma steps_Nil: "steps [] s = s"
  by (simp add: steps_def)

lemma steps_Cons: "steps (f # fs) s = steps fs (step f s)"
  by (simp add: steps_def)

lemma steps_append: "steps (fs @ gs) s = steps gs (steps fs s)"
  by (simp add: steps_def)

lemma step_raised: "raised s \<noteq> None \<Longrightarrow> step f s = s"
  by (auto simp: step_def)

lemma step_ok: "raised s = None \<Longrightarrow> step f s = f s"
  by (simp add: step_def)

lemma steps_raised: "raised s \<noteq> None \<Longrightarrow> steps fs s = s"
  by (induction fs) (simp_all add: steps_Nil steps_Cons step_raised)

lemma raised_raise: "raised (raise e s) = Some e"
  by (simp add: raise_def)

lemma trace_raise: "trace (raise e s) = trace s"
  by (simp add: raise_def)

lemma steps_after_raise: "steps fs (raise e s) = raise e s"
  by (rule steps_raised) (simp add: raised_raise)

subsection \<open>Statements that only append calls of some part\<close>

lemma adds_onlyI:
  "(\<And>s. \<exists>evs. trace (f s) = trace s @ evs \<and> list_all (\<lambda>ev. phase_of ev \<le> n) evs)
   \<Longrightarrow> adds_only n f"
  by (simp add: adds_only_def)

lemma adds_onlyD:
  "adds_only n f \<Longrightarrow>
   \<exists>evs. trace (f s) = trace s @ evs \<and> list_all (\<lambda>ev. phase_of ev \<le> n) evs"
  by (simp add: adds_only_def)

lemma adds_only_same_trace: "(\<And>s. trace (f s) = trace s) \<Longrightarrow> adds_only n f"
  by (rule adds_onlyI) (rule exI [of _ "[]"], simp)

lemma adds_only_raise: "adds_only n (raise e)"
  by (rule adds_only_same_trace) (simp add: raise_def)

lemma adds_only_emit: "phase_of ev \<le> n \<Longrightarrow> adds_only n (emit ev)"
  by (rule adds_onlyI) (simp add: emit_def)

lemma adds_only_call: "phase_of ev \<le> n \<Longrightarrow> adds_only n (call w ev)"
  by (rule adds_onlyI) (simp add: call_def split: option.split)

lemma adds_only_step: "adds_only n f \<Longrightarrow> adds_only n (step f)"
  unfolding adds_only_def step_def by auto

lemma adds_only_comp:
  assumes "adds_only n f" and "adds_only n g"
  shows "adds_only n (\<lambda>s. g (f s))"
proof (rule adds_onlyI)
  fix s
  from adds_onlyD [OF assms(1), of s] obtain e1 where
    1: "trace (f s) = trace s @ e1" "list_all (\<lambda>ev. phase_of ev \<le> n) e1" by blast
  from adds_onlyD [OF assms(2), of "f s"] obtain e2 where
    2: "trace (g (f s)) = trace (f s) @ e2" "list_all (\<lambda>ev. phase_of ev \<le> n) e2" by blast
  from 1 2 have "trace (g (f s)) = trace s @ (e1 @ e2) \<and>
      list_all (\<lambda>ev. phase_of ev \<le> n) (e1 @ e2)" by simp
  then show "\<exists>evs. trace (g (f s)) = trace s @ evs \<and> list_all (\<lambda>ev. phase_of ev \<le> n) evs"
    by blast
qed

lemma adds_only_steps:
  "list_all (adds_only n) fs \<Longrightarrow> adds_only n (steps fs)"
proof (induction fs)
  case Nil
  show ?case by (rule adds_only_same_trace) (simp add: steps_Nil)
next
  case (Cons f fs)
  then have f: "adds_only n (step f)" and fs: "adds_only n (steps fs)"
    by (simp_all add: adds_only_step)
  have "adds_only n (\<lambda>s. steps fs (step f s))"
    by (rule adds_only_comp [OF f fs])
  then show ?case by (simp add: steps_Cons [abs_def])
qed

lemma adds_only_if:
  "adds_only n f \<Longrightarrow> adds_only n g \<Longrightarrow> adds_only n (\<lambda>s. if c then f s else g s)"
  by (cases c) simp_all

lemma adds_only_mono: "adds_only m f \<Longrightarrow> m \<le> n \<Longrightarrow> adds_only n f"
  unfolding adds_only_def list_all_iff by (meson le_trans)

subsection \<open>The calls of lines 75 to 144\<close>

lemmas stmt_defs = raise_def emit_def call_def step_def steps_Nil steps_Cons Let_def

lemma adds_only_detect_checkpoint: "adds_only 1 (detect_checkpoint a w)"
  by (rule adds_onlyI) (auto simp: detect_checkpoint_def stmt_defs)

lemma adds_only_set_seed: "adds_only 1 (set_seed a w)"
  by (rule adds_onlyI) (auto simp: set_seed_def stmt_defs split: option.split)

lemma adds_only_load_config: "adds_only 1 (load_config a w)"
  by (rule adds_onlyI) (auto simp: load_config_def stmt_defs split: option.split)

lemma adds_only_load_tokenizer: "adds_only 1 (load_tokenizer a w)"
  by (rule adds_onlyI) (auto simp: load_tokenizer_def stmt_defs split: option.split)

lemma adds_only_fix_pad_token: "adds_only 1 (fix_pad_token a w)"
  by (rule adds_onlyI) (auto simp: fix_pad_token_def stmt_defs split: option.split)

lemma adds_only_quantize_config: "adds_only 1 (quantize_config a w)"
  by (rule adds_onlyI) (auto simp: quantize_config_def stmt_defs split: option.split)

lemma adds_only_pick_cls: "adds_only 1 (pick_cls a w)"
  by (rule adds_onlyI) (auto simp: pick_cls_def stmt_defs split: option.split)

lemma adds_only_load_model: "adds_only 1 (load_model a w)"
  by (rule adds_onlyI) (auto simp: load_model_def stmt_defs split: option.split)

lemma adds_only_setup: "adds_only 1 (steps (setup_stmts a w))"
  using adds_only_detect_checkpoint [of a w] adds_only_set_seed [of a w]
    adds_only_load_config [of a w] adds_only_load_tokenizer [of a w]
    adds_only_fix_pad_token [of a w] adds_only_quantize_config [of a w]
    adds_only_pick_cls [of a w] adds_only_load_model [of a w]
  by (intro adds_only_steps) (simp add: setup_stmts_def)

lemma trace_init: "trace init_locals = []"
  by (simp add: init_locals_def)

lemma raised_init: "raised init_locals = None"
  by (simp add: init_locals_def)

lemma before_lora_events: "list_all (\<lambda>ev. phase_of ev \<le> 1) (trace (before_lora a w))"
  using adds_onlyD [OF adds_only_setup, of a w init_locals]
  by (auto simp: before_lora_def trace_init)

subsection \<open>The calls of the adaptation block, and line 190\<close>

lemma adds_only_lora_assert: "adds_only 2 (lora_assert a w)"
  by (rule adds_only_same_trace) (simp add: lora_assert_def raise_def)

lemma adds_only_lora_targets: "adds_only 2 (lora_targets a w)"
  by (rule adds_only_same_trace)
     (simp add: lora_targets_def raise_def split: option.split)

lemma adds_only_lora_config: "adds_only 2 (lora_config a w)"
  by (rule adds_onlyI) (auto simp: lora_config_def stmt_defs split: option.split)

lemma adds_only_lora_int8: "adds_only 2 (lora_int8 a w)"
  by (rule adds_onlyI) (auto simp: lora_int8_def stmt_defs split: option.split)

lemma adds_only_lora_peft: "adds_only 2 (lora_peft a w)"
  by (rule adds_onlyI) (auto simp: lora_peft_def stmt_defs split: option.split)

lemma print_trainable_parameters_event:
  "print_trainable_parameters params = Inr ev \<Longrightarrow> phase_of ev = 0"
  by (auto simp: print_trainable_parameters_def split: prod.splits if_splits)

lemma adds_only_lora_print: "adds_only 2 (lora_print a w)"
  by (rule adds_onlyI)
     (auto simp: lora_print_def stmt_defs print_trainable_parameters_event
           split: option.split sum.split)

lemma adds_only_lora_block: "adds_only 2 (lora_block a w)"
proof (cases "use_lora (l_args a)")
  case True
  have "adds_only 2 (steps [lora_assert a w, lora_targets a w, lora_config a w,
          lora_int8 a w, lora_peft a w, lora_print a w])"
    by (intro adds_only_steps)
       (simp add: adds_only_lora_assert adds_only_lora_targets adds_only_lora_config
          adds_only_lora_int8 adds_only_lora_peft adds_only_lora_print)
  moreover from True have "lora_block a w = steps [lora_assert a w, lora_targets a w,
      lora_config a w, lora_int8 a w, lora_peft a w, lora_print a w]"
    by (intro ext) (simp add: lora_block_def)
  ultimately show ?thesis by simp
next
  case False
  then show ?thesis
    by (intro adds_only_same_trace) (simp add: lora_block_def)
qed

text \<open>Line 190 never gets past the constructor.\<close>

lemma build_processor_raises: "\<exists>e. build_processor a w s = raise e s"
  by (auto simp: build_processor_def Processor_init_def split: option.split)

lemma adds_only_build_processor: "adds_only 2 (build_processor a w)"
proof (rule adds_only_same_trace)
  fix s
  from build_processor_raises [of a w s] show "trace (build_processor a w s) = trace s"
    by (auto simp: trace_raise)
qed

lemma step_build_processor_raised: "raised (step (build_processor a w) s) \<noteq> None"
proof (cases "raised s = None")
  case True
  with build_processor_raises [of a w s] show ?thesis
    by (auto simp: step_ok raised_raise)
next
  case False
  then show ?thesis by (simp add: step_raised)
qed

lemma before_collator_alt:
  "before_collator a w = step (build_processor a w) (step (lora_block a w) (before_lora a w))"
  by (simp add: before_collator_def before_lora_def steps_append steps_Cons steps_Nil)

lemma raised_before_collator: "raised (before_collator a w) \<noteq> None"
  unfolding before_collator_alt by (rule step_build_processor_raised)

lemma main_alt: "main a w = steps (train_stmts a w) (before_collator a w)"
  unfolding main_def before_collator_def append_assoc [symmetric]
  by (rule steps_append)

lemma main_stops_at_processor: "main a w = before_collator a w"
  unfolding main_alt by (rule steps_raised) (rule raised_before_collator)

lemma before_collator_events:
  "list_all (\<lambda>ev. phase_of ev \<le> 2) (trace (before_collator a w))"
proof -
  have "adds_only 2 (steps (setup_stmts a w @ [lora_block a w, build_processor a w]))"
    unfolding steps_append [abs_def]
    by (rule adds_only_comp [OF adds_only_mono [OF adds_only_setup]])
       (simp_all add: adds_only_steps adds_only_lora_block adds_only_build_processor)
  from adds_onlyD [OF this, of init_locals] show ?thesis
    by (auto simp: before_collator_def trace_init)
qed

lemma main_never_trains:
  "raised (main a w) \<noteq> None \<and> BuildCollator \<notin> set (trace (main a w)) \<and>
   BuildTrainer \<notin> set (trace (main a w)) \<and> Train \<notin> set (trace (main a w)) \<and>
   SavePretrained \<notin> set (trace (main a w))"
  using before_collator_events [of a w] raised_before_collator [of a w]
  unfolding main_stops_at_processor list_all_iff
  by fastforce

subsection \<open>Unfolding \<^verbatim>\<open>main\<close> on a concrete input\<close>

lemmas main_defs =
  main_def setup_stmts_def train_stmts_def detect_checkpoint_def set_seed_def
  load_config_def load_tokenizer_def fix_pad_token_def quantize_config_def pick_cls_def
  load_model_def lora_block_def lora_assert_def lora_targets_def lora_config_def
  lora_int8_def lora_peft_def lora_print_def print_trainable_parameters_def
  build_processor_def build_collator_def
  build_trainer_def silence_cache_def train_def save_model_def Processor_init_def
  target_module_dict_def target_att_dict_def py_or_def init_locals_def stmt_defs

lemmas input_defs =
  plain_args_def plain_world_def local_data_args_def toy_tokenizer_def

subsection \<open>Lines 75 to 144 bind neither target_modules nor model\<close>

lemma steps_frame:
  assumes "\<And>f s. f \<in> set fs \<Longrightarrow> g (f s) = g s"
  shows "g (steps fs s) = g s"
  using assms
proof (induction fs arbitrary: s)
  case Nil
  show ?case by (simp add: steps_Nil)
next
  case (Cons f fs)
  have "g (steps fs (step f s)) = g (step f s)"
    by (rule Cons.IH) (simp add: Cons.prems)
  also have "g (step f s) = g s"
    by (simp add: step_def Cons.prems)
  finally show ?case by (simp add: steps_Cons)
qed

lemma setup_frame:
  assumes "f \<in> set (setup_stmts a w)"
  shows "v_target_modules (f s) = v_target_modules s \<and> v_model (f s) = v_model s"
proof -
  from assms consider "f = detect_checkpoint a w" | "f = set_seed a w"
    | "f = load_config a w" | "f = load_tokenizer a w" | "f = fix_pad_token a w"
    | "f = quantize_config a w" | "f = pick_cls a w" | "f = load_model a w"
    by (auto simp: setup_stmts_def)
  then show ?thesis
  proof cases
    case 1 then show ?thesis by (simp add: detect_checkpoint_def stmt_defs)
  next
    case 2 then show ?thesis by (simp add: set_seed_def stmt_defs split: option.split)
  next
    case 3 then show ?thesis by (simp add: load_config_def stmt_defs split: option.split)
  next
    case 4 then show ?thesis by (simp add: load_tokenizer_def stmt_defs split: option.split)
  next
    case 5 then show ?thesis by (simp add: fix_pad_token_def stmt_defs split: option.split)
  next
    case 6 then show ?thesis by (simp add: quantize_config_def stmt_defs split: option.split)
  next
    case 7 then show ?thesis by (simp add: pick_cls_def stmt_defs split: option.split)
  next
    case 8 then show ?thesis by (simp add: load_model_def stmt_defs split: option.split)
  qed
qed

lemma before_lora_unbound:
  "v_target_modules (before_lora a w) = None" "v_model (before_lora a w) = None"
proof -
  have "v_target_modules (steps (setup_stmts a w) init_locals) = v_target_modules init_locals"
    by (rule steps_frame) (simp add: setup_frame)
  then show "v_target_modules (before_lora a w) = None"
    by (simp add: before_lora_def init_locals_def)
  have "v_model (steps (setup_stmts a w) init_locals) = v_model init_locals"
    by (rule steps_frame) (simp add: setup_frame)
  then show "v_model (before_lora a w) = None"
    by (simp add: before_lora_def init_locals_def)
qed

subsection \<open>The output directory\<close>

lemma main_first: "main a w = steps (tl (setup_stmts a w) @ [lora_block a w, build_processor a w] @ train_stmts a w)
     (detect_checkpoint a w init_locals)"
  by (simp add: main_def setup_stmts_def steps_Cons step_ok raised_init)

text \<open>
  Claim C5, as amended. When training is requested (\<^verbatim>\<open>do_train\<close>), the output
  directory exists, is not empty and holds no checkpoint, and
  \<^verbatim>\<open>overwrite_output_dir\<close> is off, \<^verbatim>\<open>main\<close> raises the \<^verbatim>\<open>ValueError\<close> of
  line 80 before any library call is made: the trace is empty, so training is not started.
\<close>

theorem used_output_dir_refused:
  assumes "isdir w (output_dir (t_args a))"
    and "do_train (t_args a)"
    and "\<not> overwrite_output_dir (t_args a)"
    and "get_last_checkpoint w (output_dir (t_args a)) = None"
    and "listdir w (output_dir (t_args a)) \<noteq> []"
  shows "raised (main a w) =
           Some (ValueError ''Output directory already exists and is not empty. Use --overwrite_output_dir to overcome.'') \<and>
         trace (main a w) = [] \<and> Train \<notin> set (trace (main a w))"
proof -
  from assms have "detect_checkpoint a w init_locals =
      raise (ValueError ''Output directory already exists and is not empty. Use --overwrite_output_dir to overcome.'')
        (init_locals\<lparr>v_last_checkpoint := None\<rparr>)"
    by (simp add: detect_checkpoint_def Let_def init_locals_def)
  then have "main a w =
      raise (ValueError ''Output directory already exists and is not empty. Use --overwrite_output_dir to overcome.'')
        (init_locals\<lparr>v_last_checkpoint := None\<rparr>)"
    by (simp only: main_first steps_after_raise)
  then show ?thesis
    by (simp add: raise_def init_locals_def)
qed

theorem used_output_dir_refused_witness:
  "isdir used_dir_world (output_dir (t_args plain_args)) \<and>
   do_train (t_args plain_args) \<and>
   \<not> overwrite_output_dir (t_args plain_args) \<and>
   get_last_checkpoint used_dir_world (output_dir (t_args plain_args)) = None \<and>
   listdir used_dir_world (output_dir (t_args plain_args)) = [''notes.txt''] \<and>
   raised (main plain_args used_dir_world) =
     Some (ValueError ''Output directory already exists and is not empty. Use --overwrite_output_dir to overcome.'') \<and>
   trace (main plain_args used_dir_world) = []"
proof -
  have h: "isdir used_dir_world (output_dir (t_args plain_args))"
    "do_train (t_args plain_args)"
    "\<not> overwrite_output_dir (t_args plain_args)"
    "get_last_checkpoint used_dir_world (output_dir (t_args plain_args)) = None"
    and l: "listdir used_dir_world (output_dir (t_args plain_args)) = [''notes.txt'']"
    by (simp_all add: used_dir_world_def input_defs)
  from l have ne: "listdir used_dir_world (output_dir (t_args plain_args)) \<noteq> []"
    by simp
  from used_output_dir_refused [OF h ne] h l show ?thesis by blast
qed

text \<open>
  The claim as written has no condition on the content of the directory. With a
  checkpoint in it the run logs that it resumes and goes on to set the seed and load the
  model; the error it ends with is not the one of line 80.
\<close>

theorem used_output_dir_with_checkpoint_counterexample:
  "isdir checkpoint_world (output_dir (t_args plain_args)) \<and>
   listdir checkpoint_world (output_dir (t_args plain_args)) = [''checkpoint-500''] \<and>
   \<not> overwrite_output_dir (t_args plain_args) \<and>
   raised (detect_checkpoint plain_args checkpoint_world init_locals) = None \<and>
   raised (main plain_args checkpoint_world) =
     Some (TypeError ''__init__() missing 1 required positional argument: seed'') \<and>
   trace (main plain_args checkpoint_world) =
     [LogInfo ''Checkpoint detected, resuming training'', SetSeed 42,
      ConfigFromPretrained ''google/mt5-small'',
      TokenizerFromPretrained ''google/mt5-small'' (Passed True),
      ModelFromPretrained AutoModelForSeq2SeqLM ''google/mt5-small'' False,
      BuildLoraConfig [''q'', ''wi_1'', ''k'', ''wi_0'', ''v'', ''wo'', ''o'', ''lm_head''],
      GetPeftModel, Printed ''-'', PrintedTrainable 24 1024, Printed ''-'']"
  by (simp add: main_defs checkpoint_world_def input_defs)

subsection \<open>Unresolved target modules\<close>

lemma lora_targets_unresolved:
  assumes "model_name_or_path (m_args a) = Some name"
    and "\<not> truthy (target_modules (l_args a)) \<or>
         (\<not> att_blocks (l_args a) \<and> \<not> contains ''mt5'' name \<and> \<not> contains ''t5'' name)"
  shows "lora_targets a w s = s"
  using assms by (auto simp: lora_targets_def py_or_def)

lemma lora_block_unresolved:
  assumes "raised s = None" and "v_target_modules s = None"
    and "use_lora (l_args a)" and "\<not> gradient_checkpointing (t_args a)"
    and "model_name_or_path (m_args a) = Some name"
    and "\<not> truthy (target_modules (l_args a)) \<or>
         (\<not> att_blocks (l_args a) \<and> \<not> contains ''mt5'' name \<and> \<not> contains ''t5'' name)"
  shows "lora_block a w s = raise (UnboundLocalError ''target_modules'') s"
proof -
  have 1: "step (lora_assert a w) s = s"
    using assms(1,4) by (simp add: step_ok lora_assert_def)
  have 2: "step (lora_targets a w) s = s"
    using assms(1) lora_targets_unresolved [OF assms(5,6)] by (simp add: step_ok)
  have 3: "step (lora_config a w) s = raise (UnboundLocalError ''target_modules'') s"
    using assms(1,2) by (simp add: step_ok lora_config_def)
  from assms(3) have "lora_block a w s =
      steps [lora_int8 a w, lora_peft a w, lora_print a w]
        (step (lora_config a w) (step (lora_targets a w) (step (lora_assert a w) s)))"
    by (simp add: lora_block_def steps_Cons)
  then show ?thesis
    by (simp only: 1 2 3 steps_after_raise)
qed

text \<open>
  Claim C6. When \<^verbatim>\<open>main\<close> reaches the adaptation block without an error, with
  \<^verbatim>\<open>use_lora\<close> on, the assertion of line 148 passing, and no target-module list to
  resolve (no target-module request, or no attention-block request and a model name
  that contains neither \<^verbatim>\<open>mt5\<close> nor \<^verbatim>\<open>t5\<close>), then \<^verbatim>\<open>target_modules\<close> is
  still unbound after lines 158 to 165, and \<^verbatim>\<open>main\<close> raises
  \<^verbatim>\<open>UnboundLocalError\<close> for it. Nothing is called after line 144: neither
  \<^verbatim>\<open>LoraConfig\<close> nor \<^verbatim>\<open>get_peft_model\<close> is in the trace.
\<close>

theorem unresolved_target_modules_raise:
  assumes "raised (before_lora a w) = None"
    and "use_lora (l_args a)" and "\<not> gradient_checkpointing (t_args a)"
    and "model_name_or_path (m_args a) = Some name"
    and "\<not> truthy (target_modules (l_args a)) \<or>
         (\<not> att_blocks (l_args a) \<and> \<not> contains ''mt5'' name \<and> \<not> contains ''t5'' name)"
  shows "v_target_modules (steps [lora_assert a w, lora_targets a w] (before_lora a w)) = None \<and>
         raised (main a w) = Some (UnboundLocalError ''target_modules'') \<and>
         trace (main a w) = trace (before_lora a w) \<and>
         (\<forall>tm. BuildLoraConfig tm \<notin> set (trace (main a w))) \<and>
         GetPeftModel \<notin> set (trace (main a w))"
proof -
  let ?s = "before_lora a w"
  have tm: "v_target_modules ?s = None"
    by (rule before_lora_unbound)
  have "step (lora_assert a w) ?s = ?s"
    using assms(1,3) by (simp add: step_ok lora_assert_def)
  moreover have "step (lora_targets a w) ?s = ?s"
    using assms(1) lora_targets_unresolved [OF assms(4,5)] by (simp add: step_ok)
  ultimately have "steps [lora_assert a w, lora_targets a w] ?s = ?s"
    by (simp add: steps_Cons steps_Nil)
  with tm have unbound:
    "v_target_modules (steps [lora_assert a w, lora_targets a w] ?s) = None"
    by simp
  have "step (lora_block a w) ?s = raise (UnboundLocalError ''target_modules'') ?s"
    using lora_block_unresolved [OF assms(1) tm assms(2-5)] assms(1) by (simp add: step_ok)
  then have "before_collator a w = raise (UnboundLocalError ''target_modules'') ?s"
    by (simp add: before_collator_alt step_raised raised_raise)
  then have m: "main a w = raise (UnboundLocalError ''target_modules'') ?s"
    by (simp add: main_stops_at_processor)
  have ev: "list_all (\<lambda>ev. phase_of ev \<le> 1) (trace ?s)"
    by (rule before_lora_events)
  have "BuildLoraConfig tm \<notin> set (trace ?s)" for tm
    using ev unfolding list_all_iff by fastforce
  moreover have "GetPeftModel \<notin> set (trace ?s)"
    using ev unfolding list_all_iff by fastforce
  ultimately show ?thesis
    using unbound by (simp add: m raised_raise trace_raise)
qed

lemma before_lora_bart:
  "raised (before_lora bart_args plain_world) = None"
  "trace (before_lora bart_args plain_world) =
     [SetSeed 42, ConfigFromPretrained ''facebook/bart-base'',
      TokenizerFromPretrained ''facebook/bart-base'' (Passed True),
      ModelFromPretrained AutoModelForCausalLM ''facebook/bart-base'' False]"
  by (simp_all add: before_lora_def main_defs bart_args_def input_defs)

theorem unresolved_target_modules_raise_witness:
  "raised (before_lora bart_args plain_world) = None \<and>
   use_lora (l_args bart_args) \<and>
   \<not> gradient_checkpointing (t_args bart_args) \<and>
   model_name_or_path (m_args bart_args) = Some ''facebook/bart-base'' \<and>
   \<not> att_blocks (l_args bart_args) \<and>
   \<not> contains ''mt5'' ''facebook/bart-base'' \<and>
   \<not> contains ''t5'' ''facebook/bart-base'' \<and>
   raised (main bart_args plain_world) = Some (UnboundLocalError ''target_modules'') \<and>
   trace (main bart_args plain_world) =
     [SetSeed 42, ConfigFromPretrained ''facebook/bart-base'',
      TokenizerFromPretrained ''facebook/bart-base'' (Passed True),
      ModelFromPretrained AutoModelForCausalLM ''facebook/bart-base'' False]"
proof -
  have h: "use_lora (l_args bart_args)"
    "\<not> gradient_checkpointing (t_args bart_args)"
    "model_name_or_path (m_args bart_args) = Some ''facebook/bart-base''"
    by (simp_all add: bart_args_def input_defs)
  have u: "\<not> att_blocks (l_args bart_args)"
    "\<not> contains ''mt5'' ''facebook/bart-base''"
    "\<not> contains ''t5'' ''facebook/bart-base''"
    by (simp_all add: bart_args_def input_defs)
  then have d: "\<not> truthy (target_modules (l_args bart_args)) \<or>
      (\<not> att_blocks (l_args bart_args) \<and> \<not> contains ''mt5'' ''facebook/bart-base'' \<and>
       \<not> contains ''t5'' ''facebook/bart-base'')"
    by blast
  from unresolved_target_modules_raise [OF before_lora_bart(1) h d] before_lora_bart h u
  show ?thesis by simp
qed

subsection \<open>No validation source\<close>

lemma call_train_no_validation:
  assumes "call_train w p Map.empty out = (Inr ds, out')"
  shows "ds ''validation'' = None"
  using call_train_other_keys [OF assms, of "''validation''"] by simp

lemma call_valid_no_source:
  assumes "valid_dir (p_data_args p) = None"
    and "dataset_name_validation (p_data_args p) = None"
  shows "call_valid w p ds out = (Inr ds, out)"
  using assms by (simp add: call_valid_def)

lemma Processor_call_no_validation:
  assumes "valid_dir (p_data_args p) = None"
    and "dataset_name_validation (p_data_args p) = None"
    and "Processor_call w p out = (Inr d, out')"
  shows "d ''validation'' = None"
proof -
  from assms(3) obtain ds1 out1 where
    t: "call_train w p Map.empty out = (Inr ds1, out1)"
    and v: "call_valid w p ds1 out1 = (Inr d, out')"
    by (rule Processor_call_Inr)
  from v call_valid_no_source [OF assms(1,2), of w ds1 out1] have "d = ds1"
    by simp
  with call_train_no_validation [OF t] show ?thesis by simp
qed

text \<open>
  Claim C9 says that a run with no validation source fails at the trainer construction,
  with a lookup error for \<^verbatim>\<open>'validation'\<close>. The code does not get there. On a
  configuration with a local train directory and no validation source, in a world where
  no library call fails, \<^verbatim>\<open>main\<close> raises \<^verbatim>\<open>TypeError\<close> at line 190, where
  \<^verbatim>\<open>Processor\<close> is constructed without its \<^verbatim>\<open>seed\<close> argument:
  \<^verbatim>\<open>processor\<close> is never bound, the subscriptions of lines 210 and 211 are never
  evaluated, and \<^verbatim>\<open>Seq2SeqTrainer\<close> is never called. Lemma
  \<open>Processor_call_no_validation\<close> above is the part of the claim about the Data
  Processor: what it returns without a validation source has no
  \<^verbatim>\<open>'validation'\<close> entry.
\<close>

theorem main_without_validation_source:
  "valid_dir (d_args no_valid_args) = None \<and>
   dataset_name_validation (d_args no_valid_args) = None \<and>
   raised (main no_valid_args plain_world) =
     Some (TypeError ''__init__() missing 1 required positional argument: seed'') \<and>
   trace (main no_valid_args plain_world) =
     [SetSeed 42, ConfigFromPretrained ''google/mt5-small'',
      TokenizerFromPretrained ''google/mt5-small'' (Passed True),
      ModelFromPretrained AutoModelForSeq2SeqLM ''google/mt5-small'' False,
      BuildLoraConfig [''q'', ''wi_1'', ''k'', ''wi_0'', ''v'', ''wo'', ''o'', ''lm_head''],
      GetPeftModel, Printed ''-'', PrintedTrainable 24 1024, Printed ''-''] \<and>
   v_processor (main no_valid_args plain_world) = None \<and>
   BuildTrainer \<notin> set (trace (main no_valid_args plain_world))"
  by (simp add: main_defs no_valid_args_def input_defs)

subsection \<open>The model variable\<close>

lemma lora_block_off: "\<not> use_lora (l_args a) \<Longrightarrow> lora_block a w s = s"
  by (simp add: lora_block_def)

lemma v_model_raise: "v_model (raise e s) = v_model s"
  by (simp add: raise_def)

lemma v_model_step_build_processor: "v_model (step (build_processor a w) s) = v_model s"
proof (cases "raised s = None")
  case True
  with build_processor_raises [of a w s] show ?thesis
    by (auto simp: step_ok v_model_raise)
next
  case False
  then show ?thesis by (simp add: step_raised)
qed

lemma before_collator_no_lora:
  assumes "\<not> use_lora (l_args a)"
  shows "v_model (before_collator a w) = None"
proof -
  have "step (lora_block a w) (before_lora a w) = before_lora a w"
    using assms by (simp add: step_def lora_block_off)
  then show ?thesis
    by (simp add: before_collator_alt v_model_step_build_processor before_lora_unbound)
qed

text \<open>
  Claim C10 says that a run with \<^verbatim>\<open>use_lora\<close> off fails at the trainer
  construction, where the unbound \<^verbatim>\<open>model\<close> is read. The code does not get there.
  On a configuration with \<^verbatim>\<open>use_lora\<close> off, in a world where no library call fails,
  \<^verbatim>\<open>main\<close> raises \<^verbatim>\<open>TypeError\<close> at line 190, where \<^verbatim>\<open>Processor\<close> is
  constructed without its \<^verbatim>\<open>seed\<close> argument: \<^verbatim>\<open>model\<close> is unbound when the run
  ends, line 207 is never evaluated, and \<^verbatim>\<open>Seq2SeqTrainer\<close> is never called. Lemma
  \<open>before_collator_no_lora\<close> above is the part of the claim about the variable: with
  \<^verbatim>\<open>use_lora\<close> off, \<^verbatim>\<open>model\<close> is unbound in every run that leaves line 190.
\<close>

theorem main_without_adaptation:
  "\<not> use_lora (l_args no_lora_args) \<and>
   raised (main no_lora_args plain_world) =
     Some (TypeError ''__init__() missing 1 required positional argument: seed'') \<and>
   trace (main no_lora_args plain_world) =
     [SetSeed 42, ConfigFromPretrained ''google/mt5-small'',
      TokenizerFromPretrained ''google/mt5-small'' (Passed True),
      ModelFromPretrained AutoModelForSeq2SeqLM ''google/mt5-small'' False] \<and>
   v_model (main no_lora_args plain_world) = None \<and>
   BuildTrainer \<notin> set (trace (main no_lora_args plain_world))"
  by (simp add: main_defs no_lora_args_def input_defs)

text \<open>
  Claim C3 does not hold of the code. On a configuration that is valid in the claim's
  sense (the output directory does not exist, both data paths exist, the tokenizer comes
  from the pretrained model) and in a world where no library call fails, \<^verbatim>\<open>main\<close>
  raises \<^verbatim>\<open>TypeError\<close> at line 190, where \<^verbatim>\<open>Processor\<close> is constructed without
  its \<^verbatim>\<open>seed\<close> argument; \<^verbatim>\<open>trainer.train()\<close> and \<^verbatim>\<open>save_pretrained()\<close> are
  never called. Lemma \<open>main_never_trains\<close> above says the same of every configuration
  and every world.
\<close>

theorem main_raises_on_valid_configuration:
  "\<not> isdir plain_world (output_dir (t_args plain_args)) \<and>
   path_exists plain_world ''data'' \<and>
   train_dir (d_args plain_args) = Some ''data'' \<and>
   valid_dir (d_args plain_args) = Some ''data'' \<and>
   truthy (model_name_or_path (m_args plain_args)) \<and>
   raised (main plain_args plain_world) =
     Some (TypeError ''__init__() missing 1 required positional argument: seed'') \<and>
   trace (main plain_args plain_world) =
     [SetSeed 42, ConfigFromPretrained ''google/mt5-small'',
      TokenizerFromPretrained ''google/mt5-small'' (Passed True),
      ModelFromPretrained AutoModelForSeq2SeqLM ''google/mt5-small'' False,
      BuildLoraConfig [''q'', ''wi_1'', ''k'', ''wi_0'', ''v'', ''wo'', ''o'', ''lm_head''],
      GetPeftModel, Printed ''-'', PrintedTrainable 24 1024, Printed ''-''] \<and>
   Train \<notin> set (trace (main plain_args plain_world)) \<and>
   SavePretrained \<notin> set (trace (main plain_args plain_world))"
  by (simp add: main_defs input_defs)

end
